theory Spec2Isabelle
  imports
    Main
    "HOL-Library.Word"
    "HOL-Library.Signed_Division"
    "HOL-Library.Sublist"
    "HOL-Library.Char_ord"
    "HOL-Library.List_Lexorder"
begin

section \<open>A shallow embedding of the C++ tutorial program (\<^verbatim>\<open>src/main.cpp\<close>)\<close>

text \<open>
  The program is one \<^verbatim>\<open>main\<close> that calls ten demonstration routines, each of which
  writes to \<^verbatim>\<open>std::cout\<close>. The embedding makes explicit what the C++ leaves implicit:
  \<^item> the console stream is a value (\<open>stream\<close>): what has been written so far and the
    stream's sticky format flags, which every numeric insertion reads;
  \<^item> a routine is a function from the program state to an \<open>outcome\<close>: it returns
    normally, or an exception leaves it, or it runs into undefined behaviour;
  \<^item> \<^verbatim>\<open>int\<close> is a 32-bit word, read as two's complement; its arithmetic wraps
    around, which is what the hardware does where C++ leaves overflow undefined (no
    computation of the program overflows);
  \<^item> a \<^verbatim>\<open>double\<close> is kept symbolic (\<open>dbl\<close>): the output records which value is
    printed under which format, not the digits the library produces for it;
  \<^item> what the process inherits from outside (standard input, the argument vector, the
    environment variables, the address the stack gives a local variable) is an \<open>env\<close>; what the compiler and the
    standard library fix (the value of \<^verbatim>\<open>__cplusplus\<close>, what a moved-from string holds)
    is a \<open>build\<close>.
  Writing to the console is assumed to succeed, and so is memory allocation.
\<close>

subsection \<open>Values\<close>

type_synonym cint = "32 word"

text \<open>Symbolic \<^verbatim>\<open>double\<close> values: a literal of the source, a converted \<^verbatim>\<open>int\<close>,
  a quotient, or the result of parsing a piece of text.\<close>

datatype dbl = DLit string | DOfInt cint | DDiv dbl dbl | DParsed string

text \<open>\<^verbatim>\<open>a / b\<close> on \<^verbatim>\<open>int\<close>: truncation towards zero. The caller has excluded
  \<^verbatim>\<open>b == 0\<close>.\<close>

definition int_div :: "cint \<Rightarrow> cint \<Rightarrow> cint" where
  "int_div a b = word_of_int (sint a sdiv sint b)"

subsection \<open>Output streams\<close>

datatype basefield = BaseDec | BaseHex

datatype floatfield = FloatDefault | FloatFixed | FloatScientific

record fmtflags =
  boolalpha :: bool
  base :: basefield
  showbase :: bool
  floatfmt :: floatfield
  precision :: nat

text \<open>The flags of a freshly constructed stream (\<^verbatim>\<open>std::ios_base\<close>'s defaults).\<close>

definition default_flags :: fmtflags where
  "default_flags =
     \<lparr>boolalpha = False, base = BaseDec, showbase = False,
      floatfmt = FloatDefault, precision = 6\<rparr>"

text \<open>What a stream has received: rendered characters, a \<^verbatim>\<open>double\<close> under the float
  format and precision in force, or a pointer value.\<close>

datatype item = Str string | Dbl floatfield nat dbl | Ptr nat

record stream =
  out :: "item list"
  flags :: fmtflags

definition new_stream :: stream where
  "new_stream = \<lparr>out = [], flags = default_flags\<rparr>"

fun digits :: "nat \<Rightarrow> nat \<Rightarrow> string" where
  "digits b n =
     (if b < 2 \<or> n < b then [''0123456789abcdef'' ! n]
      else digits b (n div b) @ [''0123456789abcdef'' ! (n mod b)])"

declare digits.simps [simp del]

definition show_dec :: "int \<Rightarrow> string" where
  "show_dec k = (if k < 0 then ''-'' @ digits 10 (nat (- k)) else digits 10 (nat k))"

text \<open>\<^verbatim>\<open>operator<<\<close> on an integer: decimal is signed; hexadecimal prints the bit
  pattern, with the prefix \<^verbatim>\<open>0x\<close> under \<^verbatim>\<open>showbase\<close> unless the value is zero.\<close>

definition show_word :: "fmtflags \<Rightarrow> 'a::len word \<Rightarrow> string" where
  "show_word f w =
     (case base f of
        BaseDec \<Rightarrow> show_dec (sint w)
      | BaseHex \<Rightarrow> (if showbase f \<and> w \<noteq> 0 then ''0x'' else []) @ digits 16 (unat w))"

definition show_bool :: "fmtflags \<Rightarrow> bool \<Rightarrow> string" where
  "show_bool f b =
     (if boolalpha f then (if b then ''true'' else ''false'')
      else (if b then ''1'' else ''0''))"

text \<open>The right-hand operands of \<^verbatim>\<open>operator<<\<close> that the program uses: values and
  manipulators. \<open>Txt\<close> is a \<^verbatim>\<open>std::string\<close> whose content was itself formatted (the
  result of \<^verbatim>\<open>oss.str()\<close> or \<^verbatim>\<open>std::format\<close>), so it may hold symbolic pieces.\<close>

datatype operand =
    S string
  | C char
  | B bool
  | I cint
  | L "64 word"
  | D dbl
  | P nat
  | Txt "item list"
  | Endl
  | Boolalpha
  | Hex
  | Dec
  | Showbase
  | Fixed
  | Scientific
  | Defaultfloat
  | Setprecision nat

definition emit :: "item \<Rightarrow> stream \<Rightarrow> stream" where
  "emit i st = st\<lparr>out := out st @ [i]\<rparr>"

definition set_flags :: "(fmtflags \<Rightarrow> fmtflags) \<Rightarrow> stream \<Rightarrow> stream" where
  "set_flags g st = st\<lparr>flags := g (flags st)\<rparr>"

fun ins :: "operand \<Rightarrow> stream \<Rightarrow> stream" where
  "ins (S x) st = emit (Str x) st"
| "ins (C c) st = emit (Str [c]) st"
| "ins (B b) st = emit (Str (show_bool (flags st) b)) st"
| "ins (I n) st = emit (Str (show_word (flags st) n)) st"
| "ins (L n) st = emit (Str (show_word (flags st) n)) st"
| "ins (D d) st = emit (Dbl (floatfmt (flags st)) (precision (flags st)) d) st"
| "ins (P a) st = emit (Ptr a) st"
| "ins (Txt xs) st = st\<lparr>out := out st @ xs\<rparr>"
| "ins Endl st = emit (Str ''\<newline>'') st"
| "ins Boolalpha st = set_flags (\<lambda>f. f\<lparr>boolalpha := True\<rparr>) st"
| "ins Hex st = set_flags (\<lambda>f. f\<lparr>base := BaseHex\<rparr>) st"
| "ins Dec st = set_flags (\<lambda>f. f\<lparr>base := BaseDec\<rparr>) st"
| "ins Showbase st = set_flags (\<lambda>f. f\<lparr>showbase := True\<rparr>) st"
| "ins Fixed st = set_flags (\<lambda>f. f\<lparr>floatfmt := FloatFixed\<rparr>) st"
| "ins Scientific st = set_flags (\<lambda>f. f\<lparr>floatfmt := FloatScientific\<rparr>) st"
| "ins Defaultfloat st = set_flags (\<lambda>f. f\<lparr>floatfmt := FloatDefault\<rparr>) st"
| "ins (Setprecision n) st = set_flags (\<lambda>f. f\<lparr>precision := n\<rparr>) st"

text \<open>One statement \<^verbatim>\<open>os << a << b << ...\<close>: the operands are inserted from left to
  right.\<close>

definition inserts :: "operand list \<Rightarrow> stream \<Rightarrow> stream" where
  "inserts ops st = fold ins ops st"

subsection \<open>Exceptions and outcomes\<close>

text \<open>The part of the \<^verbatim>\<open>std::exception\<close> hierarchy the program names or can meet.
  \<^verbatim>\<open>runtime_error\<close> and \<^verbatim>\<open>logic_error\<close> derive from \<^verbatim>\<open>exception\<close>;
  \<^verbatim>\<open>out_of_range\<close> and \<^verbatim>\<open>invalid_argument\<close> derive from \<^verbatim>\<open>logic_error\<close>.\<close>

datatype exn_class = Exception | RuntimeError | LogicError | OutOfRange | InvalidArgument

fun ancestors :: "exn_class \<Rightarrow> exn_class list" where
  "ancestors Exception = [Exception]"
| "ancestors RuntimeError = [RuntimeError, Exception]"
| "ancestors LogicError = [LogicError, Exception]"
| "ancestors OutOfRange = [OutOfRange, LogicError, Exception]"
| "ancestors InvalidArgument = [InvalidArgument, LogicError, Exception]"

definition derives :: "exn_class \<Rightarrow> exn_class \<Rightarrow> bool" where
  "derives c d = (d \<in> set (ancestors c))"

text \<open>A thrown object: a standard exception with its class and its \<^verbatim>\<open>what()\<close>
  message, or an object of a type outside the hierarchy (\<^verbatim>\<open>throw std::string("...")\<close>),
  with its content.\<close>

datatype exn = StdExn exn_class string | Other string

text \<open>The data members of \<^verbatim>\<open>Person\<close> and of \<^verbatim>\<open>Employee\<close>, which extends it, and
  what a cell of the free store can hold: an \<^verbatim>\<open>int\<close> or a \<^verbatim>\<open>Person\<close>.\<close>

record person =
  name :: string
  age :: cint

record employee = person +
  company :: string

datatype hval = HInt cint | HPerson person

text \<open>The names of the demonstration routines.\<close>

datatype routine =
    DemonstrateBasicSyntax
  | DemonstrateVariablesAndTypes
  | DemonstrateControlFlow
  | DemonstrateFunctions
  | DemonstrateReferencesAndPointers
  | DemonstrateClasses
  | DemonstrateModernCpp
  | DemonstrateStl
  | DemonstrateErrorHandling
  | DemonstrateModernIO

text \<open>The program state: the console, and the objects on the free store, by address.
  With them goes a record of the run, \<open>entered\<close>: the demonstration routines whose body
  has been entered so far, in order. The record is written by the routine itself, as the
  first step of its body (\<open>enter\<close>), wherever it is called from; nothing reads it, and it
  stands for no data of the program.\<close>

record state =
  console :: stream
  heap :: "(nat \<times> hval) list"
  entered :: "routine list"

datatype outcome = Normal state | Throws exn state | Undefined state

definition enter :: "routine \<Rightarrow> state \<Rightarrow> state" where
  "enter r s = s\<lparr>entered := entered s @ [r]\<rparr>"

definition cout :: "operand list \<Rightarrow> state \<Rightarrow> state" where
  "cout ops s = s\<lparr>console := inserts ops (console s)\<rparr>"

text \<open>\<^verbatim>\<open>try { ... } catch (const T& e) { ... } ... catch (...) { ... }\<close>: the first
  clause whose type the thrown object has (or derives from) runs; a typed handler gets
  the object's message, the catch-all gets nothing; with no matching clause the exception
  leaves the block.\<close>

datatype handler =
    Catch exn_class "string \<Rightarrow> state \<Rightarrow> outcome"
  | CatchAll "state \<Rightarrow> outcome"

fun dispatch :: "handler list \<Rightarrow> exn \<Rightarrow> state \<Rightarrow> outcome" where
  "dispatch [] e s = Throws e s"
| "dispatch (Catch c h # hs) e s =
     (case e of
        StdExn d m \<Rightarrow> if derives d c then h m s else dispatch hs e s
      | Other p \<Rightarrow> dispatch hs e s)"
| "dispatch (CatchAll h # hs) e s = h s"

definition try_catch :: "outcome \<Rightarrow> handler list \<Rightarrow> outcome" where
  "try_catch r hs =
     (case r of
        Normal s \<Rightarrow> Normal s
      | Throws e s \<Rightarrow> dispatch hs e s
      | Undefined s \<Rightarrow> Undefined s)"

subsection \<open>The free store\<close>

text \<open>An allocation returns an address that holds no object. Which one is the
  allocator's choice; the program never prints it.\<close>

definition fresh :: "(nat \<times> hval) list \<Rightarrow> nat" where
  "fresh h = Suc (fold max (map fst h) 0)"

definition alloc :: "hval \<Rightarrow> state \<Rightarrow> nat \<times> state" where
  "alloc v s = (fresh (heap s), s\<lparr>heap := (fresh (heap s), v) # heap s\<rparr>)"

definition free :: "nat \<Rightarrow> state \<Rightarrow> state" where
  "free a s = s\<lparr>heap := filter (\<lambda>kv. fst kv \<noteq> a) (heap s)\<rparr>"

definition load :: "nat \<Rightarrow> state \<Rightarrow> hval option" where
  "load a s = map_of (heap s) a"

subsection \<open>Containers and algorithms\<close>

definition push_back :: "'a list \<Rightarrow> 'a \<Rightarrow> 'a list" where
  "push_back xs x = xs @ [x]"

text \<open>\<^verbatim>\<open>pop_back\<close> on an empty vector is undefined behaviour: \<open>None\<close>.\<close>

definition pop_back :: "'a list \<Rightarrow> 'a list option" where
  "pop_back xs = (if xs = [] then None else Some (butlast xs))"

text \<open>\<^verbatim>\<open>vec.at(i)\<close> throws \<^verbatim>\<open>std::out_of_range\<close> when \<^verbatim>\<open>i\<close> is out of bounds.
  The text of the message is the library's own.\<close>

definition at :: "'a list \<Rightarrow> nat \<Rightarrow> exn + 'a" where
  "at xs i = (if i < length xs then Inr (xs ! i) else Inl (StdExn OutOfRange ''vector::at''))"

text \<open>\<^verbatim>\<open>std::find(first, last, x) - first\<close>: the position of the first element equal
  to \<^verbatim>\<open>x\<close>, and the length of the range when there is none (the iterator is
  \<^verbatim>\<open>last\<close>).\<close>

fun std_find :: "'a list \<Rightarrow> 'a \<Rightarrow> nat" where
  "std_find [] x = 0"
| "std_find (y # ys) x = (if y = x then 0 else Suc (std_find ys x))"

text \<open>\<^verbatim>\<open>std::sort\<close> on \<^verbatim>\<open>int\<close>: ascending in the signed order.\<close>

definition std_sort :: "cint list \<Rightarrow> cint list" where
  "std_sort xs = sort_key sint xs"

text \<open>\<^verbatim>\<open>std::transform(first, last, d_first, f)\<close> overwrites the destination from its
  start; a destination shorter than the source is undefined behaviour.\<close>

definition std_transform :: "('a \<Rightarrow> 'b) \<Rightarrow> 'a list \<Rightarrow> 'b list \<Rightarrow> 'b list option" where
  "std_transform f xs dst =
     (if length xs \<le> length dst then Some (map f xs @ drop (length xs) dst) else None)"

text \<open>\<^verbatim>\<open>std::map<std::string, int>\<close>: the entries in ascending key order.
  \<^verbatim>\<open>m[k] = v\<close> inserts the key or overwrites its value.\<close>

fun map_assign :: "string \<Rightarrow> cint \<Rightarrow> (string \<times> cint) list \<Rightarrow> (string \<times> cint) list" where
  "map_assign k v [] = [(k, v)]"
| "map_assign k v ((k', v') # m) =
     (if k < k' then (k, v) # (k', v') # m
      else if k = k' then (k, v) # m
      else (k', v') # map_assign k v m)"

subsection \<open>Parsing text: \<^verbatim>\<open>std::istringstream\<close> and \<^verbatim>\<open>std::stoi\<close>\<close>

definition isspace :: "char \<Rightarrow> bool" where
  "isspace c = (c \<in> set [CHR '' '', CHR 0x09, CHR ''\<newline>'', CHR 0x0B, CHR 0x0C, CHR 0x0D])"

definition isdigit :: "char \<Rightarrow> bool" where
  "isdigit c = (c \<in> set ''0123456789'')"

definition digit_val :: "char \<Rightarrow> nat" where
  "digit_val c = std_find ''0123456789'' c"

definition decimal :: "string \<Rightarrow> nat" where
  "decimal ds = fold (\<lambda>c n. 10 * n + digit_val c) ds 0"

text \<open>An optional sign and a non-empty run of decimal digits at the start of the text:
  the number and what follows it.\<close>

definition read_int :: "string \<Rightarrow> (int \<times> string) option" where
  "read_int xs =
     (let (neg, ys) =
            (case xs of
               [] \<Rightarrow> (False, [])
             | c # r \<Rightarrow> if c = CHR ''-'' then (True, r)
                        else if c = CHR ''+'' then (False, r) else (False, xs));
          ds = takeWhile isdigit ys
      in if ds = [] then None
         else Some (if neg then - int (decimal ds) else int (decimal ds), dropWhile isdigit ys))"

definition in_int_range :: "int \<Rightarrow> bool" where
  "in_int_range k = (- (2 ^ 31) \<le> k \<and> k < 2 ^ 31)"

text \<open>\<^verbatim>\<open>std::stoi(str)\<close> in base 10: leading white space is skipped; no digits is
  \<^verbatim>\<open>std::invalid_argument\<close>, a number that does not fit \<^verbatim>\<open>int\<close> is
  \<^verbatim>\<open>std::out_of_range\<close>. The messages are the library's own.\<close>

definition stoi :: "string \<Rightarrow> exn + cint" where
  "stoi str =
     (case read_int (dropWhile isspace str) of
        None \<Rightarrow> Inl (StdExn InvalidArgument ''stoi'')
      | Some (k, rest) \<Rightarrow>
          if in_int_range k then Inr (word_of_int k) else Inl (StdExn OutOfRange ''stoi''))"

record istringstream =
  buf :: string
  failbit :: bool

text \<open>The formatted extractions \<^verbatim>\<open>iss >> x\<close>. Each takes the variable's value before
  the extraction (\<open>None\<close>: not initialised) and returns its value after it. On a stream
  that has already failed nothing is read and the variable is left as it was; a failed
  conversion stores zero (an empty string) and sets \<^verbatim>\<open>failbit\<close>.\<close>

definition extract_int :: "istringstream \<Rightarrow> cint option \<Rightarrow> cint option \<times> istringstream" where
  "extract_int iss cur =
     (if failbit iss then (cur, iss)
      else case read_int (dropWhile isspace (buf iss)) of
             None \<Rightarrow> (Some 0, iss\<lparr>buf := dropWhile isspace (buf iss), failbit := True\<rparr>)
           | Some (k, rest) \<Rightarrow>
               if in_int_range k then (Some (word_of_int k), iss\<lparr>buf := rest\<rparr>)
               else (Some (if k < 0 then word_of_int (- (2 ^ 31)) else word_of_int (2 ^ 31 - 1)),
                     iss\<lparr>buf := rest, failbit := True\<rparr>))"

text \<open>The text of a floating-point number: an optional sign, digits, and an optional
  fraction (the program's input has no exponent). Its value stays symbolic.\<close>

definition read_float :: "string \<Rightarrow> (string \<times> string) option" where
  "read_float xs =
     (let (sign, ys) =
            (case xs of
               [] \<Rightarrow> ([], [])
             | c # r \<Rightarrow> if c = CHR ''-'' \<or> c = CHR ''+'' then ([c], r) else ([], xs));
          whole = takeWhile isdigit ys;
          zs = dropWhile isdigit ys;
          (frac, rest) =
            (case zs of
               [] \<Rightarrow> ([], [])
             | c # r \<Rightarrow> if c = CHR ''.'' then (c # takeWhile isdigit r, dropWhile isdigit r)
                        else ([], zs))
      in if whole = [] \<and> length frac \<le> 1 then None
         else Some (sign @ whole @ frac, rest))"

definition extract_double :: "istringstream \<Rightarrow> dbl option \<Rightarrow> dbl option \<times> istringstream" where
  "extract_double iss cur =
     (if failbit iss then (cur, iss)
      else case read_float (dropWhile isspace (buf iss)) of
             None \<Rightarrow> (Some (DOfInt 0), iss\<lparr>buf := dropWhile isspace (buf iss), failbit := True\<rparr>)
           | Some (tok, rest) \<Rightarrow> (Some (DParsed tok), iss\<lparr>buf := rest\<rparr>))"

definition extract_string :: "istringstream \<Rightarrow> string \<Rightarrow> string \<times> istringstream" where
  "extract_string iss cur =
     (if failbit iss then (cur, iss)
      else let ys = dropWhile isspace (buf iss);
               w = takeWhile (\<lambda>c. \<not> isspace c) ys
           in if w = [] then ([], iss\<lparr>buf := ys, failbit := True\<rparr>)
              else (w, iss\<lparr>buf := dropWhile (\<lambda>c. \<not> isspace c) ys\<rparr>))"

subsection \<open>The environment of a run and of the build\<close>

record env =
  stdin :: string
  argv :: "string list"
  environ :: "(string \<times> string) list"
  value_addr :: nat

record build =
  cplusplus :: nat
  moved_from :: "string \<Rightarrow> string"

subsection \<open>The demonstration routines\<close>

definition demonstrateBasicSyntax :: "state \<Rightarrow> outcome" where
  "demonstrateBasicSyntax s =
     (let s = enter DemonstrateBasicSyntax s;
          s = cout [S ''\<newline>----- Basic Syntax -----\<newline>''] s;
          s = cout [S ''Hello, World!'', Endl] s
      in Normal s)"

definition demonstrateVariablesAndTypes :: "state \<Rightarrow> outcome" where
  "demonstrateVariablesAndTypes s =
     (let s = enter DemonstrateVariablesAndTypes s;
          s = cout [S ''\<newline>----- Variables and Types -----\<newline>''] s;
          integerValue = (42 :: cint);
          floatingPoint = DLit ''3.14159'';
          singleCharacter = CHR ''A'';
          booleanValue = True;
          text = ''Hello, C++'';
          unchangeable = (100 :: cint);
          wideText = ''Wide character string'';
          s = cout [S ''Integer: '', I integerValue, Endl] s;
          s = cout [S ''Double: '', D floatingPoint, Endl] s;
          s = cout [S ''Char: '', C singleCharacter, Endl] s;
          s = cout [S ''Boolean: '', Boolalpha, B booleanValue, Endl] s;
          s = cout [S ''String: '', S text, Endl] s;
          x = (5 :: cint);
          y = DDiv (DOfInt x) (DOfInt 2);
          s = cout [S ''5/2 with conversion: '', D y, Endl] s;
          s = cout [S ''5/2 without conversion: '', I (int_div 5 2), Endl] s
      in Normal s)"

text \<open>The three counting loops of \<^verbatim>\<open>demonstrateControlFlow\<close>. The counter is an
  \<^verbatim>\<open>int\<close>; the loops end for every starting value, since the distance to 5 shrinks
  with each round.\<close>

lemma unat_countdown:
  fixes w :: cint
  assumes "w \<noteq> 0"
  shows "unat (w - 1) < unat w"
proof -
  have "unat (w - 1) = unat w - 1"
    using assms by (rule unat_minus_one)
  moreover have "unat w \<noteq> 0"
    using assms by (simp add: unat_eq_0)
  ultimately show ?thesis by simp
qed

function for_loop :: "cint \<Rightarrow> state \<Rightarrow> state" where
  "for_loop i s = (if i <s 5 then for_loop (i + 1) (cout [I i, S '' ''] s) else s)"
  by pat_completeness auto
termination
proof (relation "measure (\<lambda>(i, s). unat (5 - i))")
  show "wf (measure (\<lambda>(i, s). unat (5 - i)))" by simp
next
  fix i :: cint and s :: state
  assume "i <s 5"
  then have "5 - i \<noteq> 0" by auto
  then have "unat (5 - i - 1) < unat (5 - i)" by (rule unat_countdown)
  moreover have "5 - (i + 1) = 5 - i - 1" by simp
  ultimately show "((i + 1, cout [I i, S '' ''] s), (i, s)) \<in> measure (\<lambda>(i, s). unat (5 - i))"
    by simp
qed

function while_loop :: "cint \<Rightarrow> state \<Rightarrow> cint \<times> state" where
  "while_loop i s = (if i <s 5 then while_loop (i + 1) (cout [I i, S '' ''] s) else (i, s))"
  by pat_completeness auto
termination
proof (relation "measure (\<lambda>(i, s). unat (5 - i))")
  show "wf (measure (\<lambda>(i, s). unat (5 - i)))" by simp
next
  fix i :: cint and s :: state
  assume "i <s 5"
  then have "5 - i \<noteq> 0" by auto
  then have "unat (5 - i - 1) < unat (5 - i)" by (rule unat_countdown)
  moreover have "5 - (i + 1) = 5 - i - 1" by simp
  ultimately show "((i + 1, cout [I i, S '' ''] s), (i, s)) \<in> measure (\<lambda>(i, s). unat (5 - i))"
    by simp
qed

function do_while_loop :: "cint \<Rightarrow> state \<Rightarrow> cint \<times> state" where
  "do_while_loop i s =
     (if (i + 1) <s 5 then do_while_loop (i + 1) (cout [I i, S '' ''] s)
      else (i + 1, cout [I i, S '' ''] s))"
  by pat_completeness auto
termination
proof (relation "measure (\<lambda>(i, s). unat (4 - i))")
  show "wf (measure (\<lambda>(i, s). unat (4 - i)))" by simp
next
  fix i :: cint and s :: state
  assume "(i + 1) <s 5"
  then have "i + 1 \<noteq> 5" by auto
  then have "4 - i \<noteq> 0" by auto
  then have "unat (4 - i - 1) < unat (4 - i)" by (rule unat_countdown)
  moreover have "4 - (i + 1) = 4 - i - 1" by simp
  ultimately show "((i + 1, cout [I i, S '' ''] s), (i, s)) \<in> measure (\<lambda>(i, s). unat (4 - i))"
    by simp
qed

declare for_loop.simps [simp del] while_loop.simps [simp del] do_while_loop.simps [simp del]

definition demonstrateControlFlow :: "state \<Rightarrow> outcome" where
  "demonstrateControlFlow s =
     (let s = enter DemonstrateControlFlow s;
          s = cout [S ''\<newline>----- Control Flow -----\<newline>''] s;
          x = (10 :: cint);
          s = (if 5 <s x then cout [S ''x is greater than 5'', Endl] s
               else if x = 5 then cout [S ''x is equal to 5'', Endl] s
               else cout [S ''x is less than 5'', Endl] s);
          s = (if x = 5 then cout [S ''x is 5'', Endl] s
               else if x = 10 then cout [S ''x is 10'', Endl] s
               else cout [S ''x is neither 5 nor 10'', Endl] s);
          s = cout [S ''For loop: ''] s;
          s = for_loop 0 s;
          s = cout [Endl] s;
          numbers = [1, 2, 3, 4, 5 :: cint];
          s = cout [S ''Range-based for loop: ''] s;
          s = fold (\<lambda>num s. cout [I num, S '' ''] s) numbers s;
          s = cout [Endl] s;
          s = cout [S ''While loop: ''] s;
          i = (0 :: cint);
          (i, s) = while_loop i s;
          s = cout [Endl] s;
          s = cout [S ''Do-while loop: ''] s;
          i = (0 :: cint);
          (i, s) = do_while_loop i s;
          s = cout [Endl] s
      in Normal s)"

text \<open>The lambda of \<^verbatim>\<open>demonstrateFunctions\<close> has the default arguments
  \<^verbatim>\<open>a = 1, b = 2\<close>; an absent argument is \<open>None\<close>.\<close>

definition defaultParamFunction :: "cint option \<Rightarrow> cint option \<Rightarrow> cint" where
  "defaultParamFunction a b =
     (case a of None \<Rightarrow> 1 | Some x \<Rightarrow> x) + (case b of None \<Rightarrow> 2 | Some y \<Rightarrow> y)"

definition demonstrateFunctions :: "cint \<Rightarrow> state \<Rightarrow> outcome" where
  "demonstrateFunctions v s =
     (let s = enter DemonstrateFunctions s;
          s = cout [S ''\<newline>----- Functions -----\<newline>''] s;
          s = cout [S ''Function parameter: '', I v, Endl] s;
          localVar = (100 :: cint);
          s = cout [S ''Inside local scope: '', I localVar, Endl] s;
          s = cout [S ''Default params (no args): '', I (defaultParamFunction None None), Endl] s;
          s = cout [S ''Default params (one arg): '',
                    I (defaultParamFunction (Some 10) None), Endl] s;
          s = cout [S ''Default params (two args): '',
                    I (defaultParamFunction (Some 10) (Some 20)), Endl] s
      in Normal s)"

definition returnSum :: "cint \<Rightarrow> cint \<Rightarrow> cint" where
  "returnSum a b = a + b"

text \<open>The locals of \<^verbatim>\<open>demonstrateReferencesAndPointers\<close> live in a frame, a store from
  addresses to \<^verbatim>\<open>int\<close> values: \<^verbatim>\<open>reference\<close> is the address of \<^verbatim>\<open>original\<close>,
  \<^verbatim>\<open>pointer\<close> the address of \<^verbatim>\<open>value\<close>, and a write through either changes the
  variable it names. The stack places \<^verbatim>\<open>value\<close> at \<open>value_addr env\<close> and
  \<^verbatim>\<open>original\<close> in another slot of the frame.\<close>

definition demonstrateReferencesAndPointers :: "env \<Rightarrow> state \<Rightarrow> outcome" where
  "demonstrateReferencesAndPointers e s =
     (let s = enter DemonstrateReferencesAndPointers s;
          s = cout [S ''\<newline>----- References and Pointers -----\<newline>''] s;
          original = value_addr e + 4;
          frame = (\<lambda>a. 0 :: cint)(original := 42);
          reference = original;
          s = cout [S ''Original: '', I (frame original), Endl] s;
          s = cout [S ''Reference: '', I (frame reference), Endl] s;
          frame = frame(reference := 100);
          s = cout [S ''After modifying reference, original: '', I (frame original), Endl] s;
          val = value_addr e;
          frame = frame(val := 42);
          pointer = val;
          s = cout [S ''Value: '', I (frame val), Endl] s;
          s = cout [S ''Pointer address: '', P pointer, Endl] s;
          s = cout [S ''Dereferenced pointer: '', I (frame pointer), Endl] s;
          frame = frame(pointer := 200);
          s = cout [S ''After modifying pointer, value: '', I (frame val), Endl] s;
          (smartPtr, s) = alloc (HInt 42) s
      in case load smartPtr s of
           Some (HInt n) \<Rightarrow>
             (let s = cout [S ''Smart pointer value: '', I n, Endl] s;
                  s = free smartPtr s
              in Normal s)
         | _ \<Rightarrow> Undefined s)"

text \<open>The classes \<^verbatim>\<open>Person\<close> and \<^verbatim>\<open>Employee\<close>. A constructor returns the object and
  writes its line; the destructor of an \<^verbatim>\<open>Employee\<close> is the implicit one, which runs
  \<^verbatim>\<open>~Person\<close>. \<^verbatim>\<open>introduce\<close> is not virtual: a call is resolved by the static type
  of the object expression.\<close>

definition Person_ctor :: "string \<Rightarrow> cint \<Rightarrow> state \<Rightarrow> person \<times> state" where
  "Person_ctor n a s =
     (\<lparr>name = n, age = a\<rparr>, cout [S ''Person created: '', S n, Endl] s)"

definition Person_dtor :: "'a person_scheme \<Rightarrow> state \<Rightarrow> state" where
  "Person_dtor p s = cout [S ''Person destroyed: '', S (name p), Endl] s"

definition getName :: "'a person_scheme \<Rightarrow> string" where
  "getName p = name p"

definition getAge :: "'a person_scheme \<Rightarrow> cint" where
  "getAge p = age p"

definition Person_introduce :: "'a person_scheme \<Rightarrow> state \<Rightarrow> state" where
  "Person_introduce p s =
     cout [S ''Hi, I'm '', S (name p), S '' and I'm '', I (age p), S '' years old.'', Endl] s"

definition Employee_ctor :: "string \<Rightarrow> cint \<Rightarrow> string \<Rightarrow> state \<Rightarrow> employee \<times> state" where
  "Employee_ctor n a c s =
     (let (p, s) = Person_ctor n a s;
          s = cout [S ''Employee created at '', S c, Endl] s
      in (\<lparr>name = name p, age = age p, company = c\<rparr>, s))"

definition Employee_dtor :: "employee \<Rightarrow> state \<Rightarrow> state" where
  "Employee_dtor e s = Person_dtor e s"

definition Employee_introduce :: "employee \<Rightarrow> state \<Rightarrow> state" where
  "Employee_introduce e s =
     cout [S ''Hi, I'm '', S (getName e), S '', '', I (getAge e),
           S '' years old, and I work at '', S (company e), S ''.'', Endl] s"

text \<open>A call through a pointer to \<^verbatim>\<open>Person\<close>: the object the pointer names is read
  from the free store; a pointer that names no \<^verbatim>\<open>Person\<close> is undefined behaviour.\<close>

definition with_person :: "nat \<Rightarrow> state \<Rightarrow> (person \<Rightarrow> state \<Rightarrow> outcome) \<Rightarrow> outcome" where
  "with_person a s k = (case load a s of Some (HPerson p) \<Rightarrow> k p s | _ \<Rightarrow> Undefined s)"

definition demonstrateClasses :: "state \<Rightarrow> outcome" where
  "demonstrateClasses s =
     (let s = enter DemonstrateClasses s;
          s = cout [S ''\<newline>----- Classes and OOP -----\<newline>''] s;
          (alice, s) = Person_ctor ''Alice'' 30 s;
          s = Person_introduce alice s;
          (p, s) = Person_ctor ''Bob'' 25 s;
          (bob, s) = alloc (HPerson p) s
      in with_person bob s (\<lambda>p s.
           let s = Person_introduce p s
           in with_person bob s (\<lambda>p s.
                let s = Person_dtor p s;
                    s = free bob s;
                    (p, s) = Person_ctor ''Charlie'' 35 s;
                    (charlie, s) = alloc (HPerson p) s
                in with_person charlie s (\<lambda>p s.
                     let s = Person_introduce p s;
                         (dave, s) = Employee_ctor ''Dave'' 40 ''Acme Inc'' s;
                         s = Employee_introduce dave s;
                         s = Employee_dtor dave s
                     in with_person charlie s (\<lambda>p s.
                          let s = Person_dtor p s;
                              s = free charlie s;
                              s = Person_dtor alice s
                          in Normal s)))))"

definition demonstrateModernCpp :: "build \<Rightarrow> state \<Rightarrow> outcome" where
  "demonstrateModernCpp b s =
     (let s = enter DemonstrateModernCpp s;
          s = cout [S ''\<newline>----- Modern C++ Features -----\<newline>''] s;
          val = (42 :: cint);
          text = ''hello'';
          pi = DLit ''3.14159'';
          s = cout [S ''Auto variables: '', I val, S '', '', S text, S '', '', D pi, Endl] s;
          add = (\<lambda>a b. a + b :: cint);
          s = cout [S ''Lambda result: '', I (add 3 4), Endl] s;
          multiplier = (10 :: cint);
          multiply = (\<lambda>x. x * multiplier);
          s = cout [S ''Lambda with capture: '', I (multiply 5), Endl] s;
          source = ''Original string'';
          destination = source;
          source = moved_from b source;
          s = cout [S ''After move, destination: '', S destination, Endl] s;
          s = cout [S ''After move, source: '', S source, Endl] s;
          numbers = [1, 2, 3, 4, 5 :: cint];
          s = cout [S ''Initializer list: ''] s;
          s = fold (\<lambda>n s. cout [I n, S '' ''] s) numbers s;
          s = cout [Endl] s
      in Normal s)"

definition demonstrateStl :: "state \<Rightarrow> outcome" where
  "demonstrateStl s =
     (let s = enter DemonstrateStl s;
          s = cout [S ''\<newline>----- Standard Template Library -----\<newline>''] s;
          numbers = [10, 20, 30, 40, 50 :: cint];
          numbers = push_back numbers 60
      in case pop_back numbers of
           None \<Rightarrow> Undefined s
         | Some numbers \<Rightarrow>
            (let s = cout [S ''Vector elements: ''] s;
                 s = fold (\<lambda>num s. cout [I num, S '' ''] s) numbers s;
                 s = cout [Endl] s;
                 ages = [];
                 ages = map_assign ''Alice'' 30 ages;
                 ages = map_assign ''Bob'' 25 ages;
                 ages = map_assign ''Charlie'' 35 ages;
                 s = cout [S ''Map elements:'', Endl] s;
                 s = fold (\<lambda>pair s. cout [S (fst pair), S '': '', I (snd pair), Endl] s) ages s;
                 s = cout [S ''Find 30 in vector: ''] s;
                 it = std_find numbers 30;
                 s = (if it \<noteq> length numbers
                      then cout [S ''Found at position '', L (word_of_nat it), Endl] s
                      else cout [S ''Not found'', Endl] s);
                 numbers = std_sort numbers;
                 s = cout [S ''Sorted vector: ''] s;
                 s = fold (\<lambda>num s. cout [I num, S '' ''] s) numbers s;
                 s = cout [Endl] s;
                 doubled = replicate (length numbers) (0 :: cint)
             in case std_transform (\<lambda>x. x * 2) numbers doubled of
                  None \<Rightarrow> Undefined s
                | Some doubled \<Rightarrow>
                   (let s = cout [S ''Doubled vector: ''] s;
                        s = fold (\<lambda>num s. cout [I num, S '' ''] s) doubled s;
                        s = cout [Endl] s
                    in Normal s)))"

text \<open>The body of the \<^verbatim>\<open>try\<close> block of \<^verbatim>\<open>demonstrateErrorHandling\<close>, as a function
  of its two locals \<^verbatim>\<open>numerator\<close> and \<^verbatim>\<open>denominator\<close> (the source initialises them
  to 10 and 2, and invites the reader to change the second to 0). The operands of one
  \<^verbatim>\<open><<\<close> chain are evaluated from left to right, so \<^verbatim>\<open>"vec[1]: "\<close> is written before
  \<^verbatim>\<open>vec.at(1)\<close> can throw.\<close>

definition try_block :: "cint \<Rightarrow> cint \<Rightarrow> state \<Rightarrow> outcome" where
  "try_block numerator denominator s =
     (let s = cout [S ''Attempting division...'', Endl] s
      in if denominator = 0 then Throws (StdExn RuntimeError ''Division by zero!'') s
         else
           (let result = int_div numerator denominator;
                s = cout [S ''Result: '', I result, Endl] s;
                vec = [1, 2, 3 :: cint];
                s = cout [S ''vec[1]: ''] s
            in case at vec 1 of
                 Inl e \<Rightarrow> Throws e s
               | Inr v \<Rightarrow> Normal (cout [I v, Endl] s)))"

definition catch_clauses :: "handler list" where
  "catch_clauses =
     [Catch RuntimeError (\<lambda>what s. Normal (cout [S ''Runtime error: '', S what, Endl] s)),
      Catch OutOfRange (\<lambda>what s. Normal (cout [S ''Out of range error: '', S what, Endl] s)),
      Catch Exception (\<lambda>what s. Normal (cout [S ''Standard exception: '', S what, Endl] s)),
      CatchAll (\<lambda>s. Normal (cout [S ''Unknown exception occurred'', Endl] s))]"

definition demonstrateErrorHandling :: "state \<Rightarrow> outcome" where
  "demonstrateErrorHandling s =
     (let s = enter DemonstrateErrorHandling s;
          s = cout [S ''\<newline>----- Error Handling -----\<newline>''] s
      in try_catch (try_block 10 2 s) catch_clauses)"

text \<open>\<^verbatim>\<open>printf\<close> writes to the C stream \<^verbatim>\<open>stdout\<close>, which is synchronised with
  \<^verbatim>\<open>std::cout\<close> (the program never calls \<^verbatim>\<open>sync_with_stdio(false)\<close>): its text
  follows what \<^verbatim>\<open>std::cout\<close> has written. It does not read the flags of
  \<^verbatim>\<open>std::cout\<close>.\<close>

definition printf :: "item list \<Rightarrow> state \<Rightarrow> state" where
  "printf xs s = s\<lparr>console := (console s)\<lparr>out := out (console s) @ xs\<rparr>\<rparr>"

text \<open>The UTF-8 encoding of the bullet U+2022 in the last lines of the program.\<close>

definition bullet :: string where
  "bullet = [CHR 0xE2, CHR 0x80, CHR 0xA2]"

definition demonstrateModernIO :: "build \<Rightarrow> state \<Rightarrow> outcome" where
  "demonstrateModernIO b s =
     (let s = enter DemonstrateModernIO s;
          s = cout [S ''\<newline>----- Modern I/O Operations -----\<newline>''] s;
          s = cout [S ''===== Modern Output Methods =====\<newline>''] s;
          s = cout [S ''1. Traditional std::cout with concatenation'', Endl] s;
          num = (42 :: cint);
          pi = DLit ''3.14159265359'';
          s = cout [S ''2. Formatted output with manipulators:'', Endl] s;
          s = cout [S ''   Hex: '', Hex, Showbase, I num, Endl] s;
          s = cout [S ''   Decimal: '', Dec, I num, Endl] s;
          s = cout [S ''   Fixed precision: '', Fixed, Setprecision 2, D pi, Endl] s;
          s = cout [S ''   Scientific: '', Scientific, D pi, Endl] s;
          s = cout [Defaultfloat, Setprecision 6] s;
          s = cout [S ''3. Using string streams:'', Endl] s;
          oss = new_stream;
          oss = inserts [S ''String stream allows building complex strings: ''] oss;
          oss = inserts [S ''Value='', I num, S '', Pi='', Fixed, Setprecision 2, D pi] oss;
          s = cout [S ''   '', Txt (out oss), Endl] s;
          s = cout [S ''4. printf-style formatting:'', Endl] s;
          s = printf [Str ''   Classic printf: num='', Str (show_dec (sint num)), Str '', pi='',
                      Dbl FloatFixed 2 pi, Str ''\<newline>''] s;
          s = (if 202002 \<le> cplusplus b
               then
                 (let s = cout [S ''5. C++20 std::format (like C# string interpolation):'', Endl] s;
                      s = cout [S ''   '',
                                Txt [Str ''Number: '', Str (show_dec (sint num)), Str '', Pi: '',
                                     Dbl FloatFixed 2 pi],
                                Endl] s;
                      s = cout [S ''   '',
                                Txt [Str ''Hex: '', Str (''0x'' @ digits 16 (unat num)),
                                     Str '', Decimal: '', Str (show_dec (sint num)),
                                     Str '', Pi: '', Dbl FloatFixed 3 pi],
                                Endl] s
                  in s)
               else cout [S ''5. C++20 std::format not available with current compiler settings'',
                          Endl] s);
          s = cout [S ''6. Modern printing without std::endl (better performance)\<newline>''] s;
          sv = ''Efficient string_view for print operations'';
          s = cout [S ''7. Using string_view: '', S sv, S ''\<newline>''] s;
          s = cout [S ''\<newline>===== Modern Input Methods =====\<newline>''] s;
          s = cout [S ''1. Traditional std::cin (uncomment to use):'', Endl] s;
          s = cout [S ''2. Reading lines with std::getline (uncomment to use):'', Endl] s;
          s = cout [S ''3. Input with validation (uncomment to use):'', Endl] s;
          s = cout [S ''4. Using string streams for parsing:'', Endl] s;
          data = ''123 3.14 Hello'';
          iss = \<lparr>buf = data, failbit = False\<rparr>;
          (parsed_int, iss) = extract_int iss None;
          (parsed_double, iss) = extract_double iss None;
          (parsed_string, iss) = extract_string iss []
      in case parsed_int of
           None \<Rightarrow> Undefined s
         | Some parsed_int \<Rightarrow>
            (let s = cout [S ''   Parsed int: '', I parsed_int, Endl] s
             in case parsed_double of
                  None \<Rightarrow> Undefined s
                | Some parsed_double \<Rightarrow>
                   (let s = cout [S ''   Parsed double: '', D parsed_double, Endl] s;
                        s = cout [S ''   Parsed string: '', S parsed_string, Endl] s;
                        s = cout [S ''5. Modern parsing approaches:'', Endl] s;
                        number_str = ''42''
                    in case stoi number_str of
                         Inl e \<Rightarrow> Throws e s
                       | Inr converted \<Rightarrow>
                          (let s = cout [S ''   String to int: '', I converted, Endl] s;
                               s = cout [S ''6. Modern I/O best practices:'', Endl] s;
                               s = cout [S (''   '' @ bullet @ '' Prefer '' @ [CHR 0x27, CHR 0x5C]
                                            @ ''n'' @ [CHR 0x27]
                                            @ '' over std::endl when flushing isn't needed\<newline>'')] s;
                               s = cout [S (''   '' @ bullet
                                            @ '' Use string_view when not modifying strings\<newline>'')] s;
                               s = cout [S (''   '' @ bullet
                                            @ '' Use std::format in C++20 for readable formatting\<newline>'')] s;
                               s = cout [S (''   '' @ bullet
                                            @ '' Consider using <charconv> for fast numeric conversions\<newline>'')] s;
                               s = cout [S (''   '' @ bullet @ '' Always validate user input\<newline>'')] s
                           in Normal s))))"

subsection \<open>The controlling routine\<close>

text \<open>A run of \<^verbatim>\<open>main\<close> in progress is the outcome so far. A statement runs only
  while control is still in \<^verbatim>\<open>main\<close>: once an exception is in flight or behaviour is
  undefined, the rest is skipped. \<open>call\<close> is a statement that calls a routine,
  \<open>statement\<close> one that calls none.\<close>

definition call :: "(state \<Rightarrow> outcome) \<Rightarrow> outcome \<Rightarrow> outcome" where
  "call f run =
     (case run of
        Normal s \<Rightarrow> f s
      | Throws x s \<Rightarrow> Throws x s
      | Undefined s \<Rightarrow> Undefined s)"

definition statement :: "(state \<Rightarrow> state) \<Rightarrow> outcome \<Rightarrow> outcome" where
  "statement f run =
     (case run of
        Normal s \<Rightarrow> Normal (f s)
      | Throws x s \<Rightarrow> Throws x s
      | Undefined s \<Rightarrow> Undefined s)"

text \<open>How the process ends: \<^verbatim>\<open>main\<close> returns a status; or an exception leaves
  \<^verbatim>\<open>main\<close> and \<^verbatim>\<open>std::terminate\<close> aborts the process; or behaviour is undefined.
  What a run leaves to observe: the routines that were entered (\<open>calls\<close>), what was
  written, and the ending.\<close>

datatype ending = Exited cint | Terminated exn | UndefinedBehaviour

record result =
  calls :: "routine list"
  stdout :: "item list"
  ending :: ending

definition return_from_main :: "cint \<Rightarrow> outcome \<Rightarrow> result" where
  "return_from_main status run =
     (case run of
        Normal s \<Rightarrow>
          \<lparr>calls = entered s, stdout = out (console s), ending = Exited status\<rparr>
      | Throws x s \<Rightarrow>
          \<lparr>calls = entered s, stdout = out (console s), ending = Terminated x\<rparr>
      | Undefined s \<Rightarrow>
          \<lparr>calls = entered s, stdout = out (console s), ending = UndefinedBehaviour\<rparr>)"

definition initial_state :: state where
  "initial_state = \<lparr>console = new_stream, heap = [], entered = []\<rparr>"

text \<open>\<^verbatim>\<open>int main()\<close>. It has no parameters, so the argument vector is out of its reach;
  nothing in it or below it names \<^verbatim>\<open>std::cin\<close>, \<^verbatim>\<open>getenv\<close> or a file.\<close>

definition main :: "build \<Rightarrow> env \<Rightarrow> result" where
  "main b e =
     (let run = Normal initial_state;
          run = statement (cout [S ''=============================='', Endl]) run;
          run = statement (cout [S ''C++ Tutorial for C# and JS Developers'', Endl]) run;
          run = statement (cout [S ''=============================='', Endl]) run;
          run = call demonstrateBasicSyntax run;
          run = call demonstrateVariablesAndTypes run;
          run = call demonstrateControlFlow run;
          run = call (demonstrateFunctions 42) run;
          run = statement (cout [S ''Sum: '', I (returnSum 5 7), Endl]) run;
          run = call (demonstrateReferencesAndPointers e) run;
          run = call demonstrateClasses run;
          run = call (demonstrateModernCpp b) run;
          run = call demonstrateStl run;
          run = call demonstrateErrorHandling run;
          run = call (demonstrateModernIO b) run;
          run = statement (cout [S ''\<newline>Tutorial completed successfully!'', Endl]) run
      in return_from_main 0 run)"

section \<open>Properties\<close>

subsection \<open>Vocabulary\<close>

text \<open>The flags that decide how a number is rendered, at their defaults. Every routine
  finds them so and leaves them so; \<^verbatim>\<open>boolalpha\<close> and \<^verbatim>\<open>showbase\<close> are not among
  them.\<close>

definition standard_numeric :: "fmtflags \<Rightarrow> bool" where
  "standard_numeric f = (base f = BaseDec \<and> floatfmt f = FloatDefault \<and> precision f = 6)"

text \<open>The state after \<open>xs\<close> has been written to the console and its flags changed by
  \<open>g\<close>, and nothing else.\<close>

definition wrote :: "item list \<Rightarrow> (fmtflags \<Rightarrow> fmtflags) \<Rightarrow> state \<Rightarrow> state" where
  "wrote xs g s =
     s\<lparr>console := \<lparr>out = out (console s) @ xs, flags = g (flags (console s))\<rparr>\<rparr>"

text \<open>Each demonstration routine as \<^verbatim>\<open>main\<close> calls it.\<close>

fun body :: "build \<Rightarrow> env \<Rightarrow> routine \<Rightarrow> state \<Rightarrow> outcome" where
  "body b e DemonstrateBasicSyntax = demonstrateBasicSyntax"
| "body b e DemonstrateVariablesAndTypes = demonstrateVariablesAndTypes"
| "body b e DemonstrateControlFlow = demonstrateControlFlow"
| "body b e DemonstrateFunctions = demonstrateFunctions 42"
| "body b e DemonstrateReferencesAndPointers = demonstrateReferencesAndPointers e"
| "body b e DemonstrateClasses = demonstrateClasses"
| "body b e DemonstrateModernCpp = demonstrateModernCpp b"
| "body b e DemonstrateStl = demonstrateStl"
| "body b e DemonstrateErrorHandling = demonstrateErrorHandling"
| "body b e DemonstrateModernIO = demonstrateModernIO b"

text \<open>Any sequence of demonstration routines, run one after the other.\<close>

fun run_all :: "build \<Rightarrow> env \<Rightarrow> routine list \<Rightarrow> state \<Rightarrow> outcome" where
  "run_all b e [] s = Normal s"
| "run_all b e (r # rs) s =
     (case body b e r s of
        Normal s' \<Rightarrow> run_all b e rs s'
      | Throws x s' \<Rightarrow> Throws x s'
      | Undefined s' \<Rightarrow> Undefined s')"

fun final_state :: "outcome \<Rightarrow> state" where
  "final_state (Normal s) = s"
| "final_state (Throws x s) = s"
| "final_state (Undefined s) = s"

text \<open>What a routine adds to the console when it starts in state \<open>s\<close> and returns
  normally.\<close>

definition written_by :: "build \<Rightarrow> env \<Rightarrow> routine \<Rightarrow> state \<Rightarrow> item list option" where
  "written_by b e r s =
     (case body b e r s of
        Normal s' \<Rightarrow> Some (drop (length (out (console s))) (out (console s')))
      | Throws x s' \<Rightarrow> None
      | Undefined s' \<Rightarrow> None)"

text \<open>A build and an environment to instantiate the theorems at: C++17, a library
  whose moved-from strings are empty, and a run with some input waiting on standard
  input.\<close>

definition example_build :: build where
  "example_build = \<lparr>cplusplus = 201703, moved_from = (\<lambda>x. [])\<rparr>"

definition example_env :: env where
  "example_env =
     \<lparr>stdin = ''7\<newline>'', argv = [''./tutorial''], environ = [(''LANG'', ''C'')],
      value_addr = 140732\<rparr>"

text \<open>An output with the pointer values blanked: what is left is what two runs can be
  compared on.\<close>

fun mask_pointer :: "item \<Rightarrow> item" where
  "mask_pointer (Ptr a) = Ptr 0"
| "mask_pointer (Str x) = Str x"
| "mask_pointer (Dbl f p d) = Dbl f p d"

text \<open>The pointer values in an output, in the order written.\<close>

fun pointers :: "item list \<Rightarrow> nat list" where
  "pointers [] = []"
| "pointers (Ptr a # xs) = a # pointers xs"
| "pointers (Str x # xs) = pointers xs"
| "pointers (Dbl f p d # xs) = pointers xs"

text \<open>What a routine leaves changed in the flags of \<^verbatim>\<open>std::cout\<close> when it returns:
  \<^verbatim>\<open>demonstrateVariablesAndTypes\<close> has inserted \<^verbatim>\<open>std::boolalpha\<close>, and
  \<^verbatim>\<open>demonstrateModernIO\<close> has inserted \<^verbatim>\<open>std::showbase\<close> (it resets the number base,
  the float format and the precision itself).\<close>

fun flag_effect :: "routine \<Rightarrow> fmtflags \<Rightarrow> fmtflags" where
  "flag_effect DemonstrateVariablesAndTypes f = f\<lparr>boolalpha := True\<rparr>"
| "flag_effect DemonstrateModernIO f = f\<lparr>showbase := True\<rparr>"
| "flag_effect r f = f"

subsection \<open>What each routine does to the state\<close>

lemmas stream_simps =
  cout_def inserts_def emit_def set_flags_def show_word_def show_dec_def show_bool_def
  digits.simps Let_def word_sless_alt wrote_def standard_numeric_def printf_def enter_def

lemma fold_max_upper: "k \<in> set ks \<Longrightarrow> k \<le> fold max ks (m :: nat)"
proof (induction ks arbitrary: m)
  case Nil
  then show ?case by simp
next
  case (Cons a ks)
  have mono: "m' \<le> fold max ks m'" for m' :: nat
    by (induction ks arbitrary: m') (auto intro: order_trans [OF max.cobounded2])
  from Cons show ?case
    by (auto intro: order_trans [OF max.cobounded1 mono])
qed

lemma fresh_not_allocated: "(fresh h, v) \<notin> set h"
proof
  assume "(fresh h, v) \<in> set h"
  then have "fresh h \<in> set (map fst h)" by force
  then have "fresh h \<le> fold max (map fst h) 0" by (rule fold_max_upper)
  then show False by (simp add: fresh_def)
qed

lemma free_fresh: "filter (\<lambda>kv. fst kv \<noteq> fresh h) h = h"
proof -
  have "\<forall>kv \<in> set h. fst kv \<noteq> fresh h"
    using fresh_not_allocated [of h] by (metis prod.collapse)
  then show ?thesis by (simp add: filter_id_conv)
qed

lemma demonstrateBasicSyntax_run:
  "standard_numeric (flags (console s)) \<Longrightarrow>
   demonstrateBasicSyntax s =
   Normal (wrote
     [Str ''\<newline>----- Basic Syntax -----\<newline>'', Str ''Hello, World!'',
      Str ''\<newline>'']
     (\<lambda>f. f) (enter DemonstrateBasicSyntax s))"
  by (simp add: demonstrateBasicSyntax_def stream_simps cong: let_weak_cong)

lemma demonstrateVariablesAndTypes_run:
  "standard_numeric (flags (console s)) \<Longrightarrow>
   demonstrateVariablesAndTypes s =
   Normal (wrote
     [Str ''\<newline>----- Variables and Types -----\<newline>'', Str ''Integer: '', Str ''42'',
      Str ''\<newline>'', Str ''Double: '', Dbl FloatDefault 6 (DLit ''3.14159''),
      Str ''\<newline>'', Str ''Char: '', Str ''A'', Str ''\<newline>'', Str ''Boolean: '',
      Str ''true'', Str ''\<newline>'', Str ''String: '', Str ''Hello, C++'', Str ''\<newline>'',
      Str ''5/2 with conversion: '', Dbl FloatDefault 6 (DDiv (DOfInt 5) (DOfInt 2)),
      Str ''\<newline>'', Str ''5/2 without conversion: '', Str ''2'', Str ''\<newline>'']
     (\<lambda>f. f\<lparr>boolalpha := True\<rparr>) (enter DemonstrateVariablesAndTypes s))"
  by (simp add: demonstrateVariablesAndTypes_def int_div_def stream_simps cong: let_weak_cong)

lemma demonstrateControlFlow_run:
  "standard_numeric (flags (console s)) \<Longrightarrow>
   demonstrateControlFlow s =
   Normal (wrote
     [Str ''\<newline>----- Control Flow -----\<newline>'', Str ''x is greater than 5'',
      Str ''\<newline>'', Str ''x is 10'', Str ''\<newline>'', Str ''For loop: '', Str ''0'',
      Str '' '', Str ''1'', Str '' '', Str ''2'', Str '' '', Str ''3'', Str '' '', Str ''4'',
      Str '' '', Str ''\<newline>'', Str ''Range-based for loop: '', Str ''1'', Str '' '',
      Str ''2'', Str '' '', Str ''3'', Str '' '', Str ''4'', Str '' '', Str ''5'', Str '' '',
      Str ''\<newline>'', Str ''While loop: '', Str ''0'', Str '' '', Str ''1'', Str '' '',
      Str ''2'', Str '' '', Str ''3'', Str '' '', Str ''4'', Str '' '', Str ''\<newline>'',
      Str ''Do-while loop: '', Str ''0'', Str '' '', Str ''1'', Str '' '', Str ''2'', Str '' '',
      Str ''3'', Str '' '', Str ''4'', Str '' '', Str ''\<newline>'']
     (\<lambda>f. f) (enter DemonstrateControlFlow s))"
  by (simp add: demonstrateControlFlow_def for_loop.simps while_loop.simps do_while_loop.simps stream_simps cong: let_weak_cong)

lemma demonstrateFunctions_run:
  "standard_numeric (flags (console s)) \<Longrightarrow>
   demonstrateFunctions 42 s =
   Normal (wrote
     [Str ''\<newline>----- Functions -----\<newline>'', Str ''Function parameter: '',
      Str ''42'', Str ''\<newline>'', Str ''Inside local scope: '', Str ''100'',
      Str ''\<newline>'', Str ''Default params (no args): '', Str ''3'', Str ''\<newline>'',
      Str ''Default params (one arg): '', Str ''12'', Str ''\<newline>'',
      Str ''Default params (two args): '', Str ''30'', Str ''\<newline>'']
     (\<lambda>f. f) (enter DemonstrateFunctions s))"
  by (simp add: demonstrateFunctions_def defaultParamFunction_def stream_simps cong: let_weak_cong)

lemma demonstrateReferencesAndPointers_run:
  "standard_numeric (flags (console s)) \<Longrightarrow>
   demonstrateReferencesAndPointers e s =
   Normal (wrote
     [Str ''\<newline>----- References and Pointers -----\<newline>'', Str ''Original: '',
      Str ''42'', Str ''\<newline>'', Str ''Reference: '', Str ''42'', Str ''\<newline>'',
      Str ''After modifying reference, original: '', Str ''100'', Str ''\<newline>'',
      Str ''Value: '', Str ''42'', Str ''\<newline>'', Str ''Pointer address: '',
      Ptr (value_addr e), Str ''\<newline>'', Str ''Dereferenced pointer: '', Str ''42'',
      Str ''\<newline>'', Str ''After modifying pointer, value: '', Str ''200'',
      Str ''\<newline>'', Str ''Smart pointer value: '', Str ''42'', Str ''\<newline>'']
     (\<lambda>f. f) (enter DemonstrateReferencesAndPointers s))"
  by (simp add: demonstrateReferencesAndPointers_def alloc_def load_def free_def free_fresh stream_simps cong: let_weak_cong)

lemma demonstrateClasses_run:
  "standard_numeric (flags (console s)) \<Longrightarrow>
   demonstrateClasses s =
   Normal (wrote
     [Str ''\<newline>----- Classes and OOP -----\<newline>'', Str ''Person created: '',
      Str ''Alice'', Str ''\<newline>'', Str ''Hi, I'm '', Str ''Alice'', Str '' and I'm '',
      Str ''30'', Str '' years old.'', Str ''\<newline>'', Str ''Person created: '', Str ''Bob'',
      Str ''\<newline>'', Str ''Hi, I'm '', Str ''Bob'', Str '' and I'm '', Str ''25'',
      Str '' years old.'', Str ''\<newline>'', Str ''Person destroyed: '', Str ''Bob'',
      Str ''\<newline>'', Str ''Person created: '', Str ''Charlie'', Str ''\<newline>'',
      Str ''Hi, I'm '', Str ''Charlie'', Str '' and I'm '', Str ''35'', Str '' years old.'',
      Str ''\<newline>'', Str ''Person created: '', Str ''Dave'', Str ''\<newline>'',
      Str ''Employee created at '', Str ''Acme Inc'', Str ''\<newline>'', Str ''Hi, I'm '',
      Str ''Dave'', Str '', '', Str ''40'', Str '' years old, and I work at '', Str ''Acme Inc'',
      Str ''.'', Str ''\<newline>'', Str ''Person destroyed: '', Str ''Dave'',
      Str ''\<newline>'', Str ''Person destroyed: '', Str ''Charlie'', Str ''\<newline>'',
      Str ''Person destroyed: '', Str ''Alice'', Str ''\<newline>'']
     (\<lambda>f. f) (enter DemonstrateClasses s))"
  by (simp add: demonstrateClasses_def with_person_def Person_ctor_def Person_dtor_def Person_introduce_def Employee_ctor_def Employee_dtor_def Employee_introduce_def getName_def getAge_def alloc_def load_def free_def free_fresh stream_simps cong: let_weak_cong)

lemma demonstrateModernCpp_run:
  "standard_numeric (flags (console s)) \<Longrightarrow>
   demonstrateModernCpp b s =
   Normal (wrote
     [Str ''\<newline>----- Modern C++ Features -----\<newline>'', Str ''Auto variables: '',
      Str ''42'', Str '', '', Str ''hello'', Str '', '', Dbl FloatDefault 6 (DLit ''3.14159''),
      Str ''\<newline>'', Str ''Lambda result: '', Str ''7'', Str ''\<newline>'',
      Str ''Lambda with capture: '', Str ''50'', Str ''\<newline>'',
      Str ''After move, destination: '', Str ''Original string'', Str ''\<newline>'',
      Str ''After move, source: '', Str (moved_from b ''Original string''), Str ''\<newline>'',
      Str ''Initializer list: '', Str ''1'', Str '' '', Str ''2'', Str '' '', Str ''3'',
      Str '' '', Str ''4'', Str '' '', Str ''5'', Str '' '', Str ''\<newline>'']
     (\<lambda>f. f) (enter DemonstrateModernCpp s))"
  by (simp add: demonstrateModernCpp_def stream_simps cong: let_weak_cong)

lemma demonstrateStl_run:
  "standard_numeric (flags (console s)) \<Longrightarrow>
   demonstrateStl s =
   Normal (wrote
     [Str ''\<newline>----- Standard Template Library -----\<newline>'',
      Str ''Vector elements: '', Str ''10'', Str '' '', Str ''20'', Str '' '', Str ''30'',
      Str '' '', Str ''40'', Str '' '', Str ''50'', Str '' '', Str ''\<newline>'',
      Str ''Map elements:'', Str ''\<newline>'', Str ''Alice'', Str '': '', Str ''30'',
      Str ''\<newline>'', Str ''Bob'', Str '': '', Str ''25'', Str ''\<newline>'',
      Str ''Charlie'', Str '': '', Str ''35'', Str ''\<newline>'', Str ''Find 30 in vector: '',
      Str ''Found at position '', Str ''2'', Str ''\<newline>'', Str ''Sorted vector: '',
      Str ''10'', Str '' '', Str ''20'', Str '' '', Str ''30'', Str '' '', Str ''40'', Str '' '',
      Str ''50'', Str '' '', Str ''\<newline>'', Str ''Doubled vector: '', Str ''20'', Str '' '',
      Str ''40'', Str '' '', Str ''60'', Str '' '', Str ''80'', Str '' '', Str ''100'',
      Str '' '', Str ''\<newline>'']
     (\<lambda>f. f) (enter DemonstrateStl s))"
  by (simp add: demonstrateStl_def push_back_def pop_back_def std_sort_def std_transform_def stream_simps cong: let_weak_cong)

lemma demonstrateErrorHandling_run:
  "standard_numeric (flags (console s)) \<Longrightarrow>
   demonstrateErrorHandling s =
   Normal (wrote
     [Str ''\<newline>----- Error Handling -----\<newline>'', Str ''Attempting division...'',
      Str ''\<newline>'', Str ''Result: '', Str ''5'', Str ''\<newline>'', Str ''vec[1]: '',
      Str ''2'', Str ''\<newline>'']
     (\<lambda>f. f) (enter DemonstrateErrorHandling s))"
  by (simp add: demonstrateErrorHandling_def try_block_def try_catch_def at_def int_div_def stream_simps cong: let_weak_cong)

lemmas parse_simps =
  extract_int_def extract_double_def extract_string_def read_int_def read_float_def stoi_def
  isspace_def isdigit_def decimal_def digit_val_def in_int_range_def

lemma extract_int_data:
  "extract_int \<lparr>buf = ''123 3.14 Hello'', failbit = False\<rparr> None =
     (Some 123, \<lparr>buf = '' 3.14 Hello'', failbit = False\<rparr>)"
  by (simp add: parse_simps)

lemma extract_double_data:
  "extract_double \<lparr>buf = '' 3.14 Hello'', failbit = False\<rparr> None =
     (Some (DParsed ''3.14''), \<lparr>buf = '' Hello'', failbit = False\<rparr>)"
  by (simp add: parse_simps)

lemma extract_string_data:
  "extract_string \<lparr>buf = '' Hello'', failbit = False\<rparr> [] =
     (''Hello'', \<lparr>buf = [], failbit = False\<rparr>)"
  by (simp add: parse_simps)

lemma stoi_number_str: "stoi ''42'' = Inr 42"
  by (simp add: parse_simps)

lemma demonstrateModernIO_run:
  "standard_numeric (flags (console s)) \<Longrightarrow>
   demonstrateModernIO b s =
   Normal (wrote
    (
     [Str ''\<newline>----- Modern I/O Operations -----\<newline>'',
      Str ''===== Modern Output Methods =====\<newline>'',
      Str ''1. Traditional std::cout with concatenation'', Str ''\<newline>'',
      Str ''2. Formatted output with manipulators:'', Str ''\<newline>'', Str ''   Hex: '',
      Str ''0x2a'', Str ''\<newline>'', Str ''   Decimal: '', Str ''42'', Str ''\<newline>'',
      Str ''   Fixed precision: '', Dbl FloatFixed 2 (DLit ''3.14159265359''),
      Str ''\<newline>'', Str ''   Scientific: '',
      Dbl FloatScientific 2 (DLit ''3.14159265359''), Str ''\<newline>'',
      Str ''3. Using string streams:'', Str ''\<newline>'', Str ''   '',
      Str ''String stream allows building complex strings: '', Str ''Value='', Str ''42'',
      Str '', Pi='', Dbl FloatFixed 2 (DLit ''3.14159265359''), Str ''\<newline>'',
      Str ''4. printf-style formatting:'', Str ''\<newline>'', Str ''   Classic printf: num='',
      Str ''42'', Str '', pi='', Dbl FloatFixed 2 (DLit ''3.14159265359''), Str ''\<newline>'']
     @ (if 202002 \<le> cplusplus b
        then
         [Str ''5. C++20 std::format (like C# string interpolation):'', Str ''\<newline>'',
          Str ''   '', Str ''Number: '', Str ''42'', Str '', Pi: '',
          Dbl FloatFixed 2 (DLit ''3.14159265359''), Str ''\<newline>'', Str ''   '',
          Str ''Hex: '', Str ''0x2a'', Str '', Decimal: '', Str ''42'', Str '', Pi: '',
          Dbl FloatFixed 3 (DLit ''3.14159265359''), Str ''\<newline>'']
        else
         [Str ''5. C++20 std::format not available with current compiler settings'',
          Str ''\<newline>''])
     @
     [Str ''6. Modern printing without std::endl (better performance)\<newline>'',
      Str ''7. Using string_view: '', Str ''Efficient string_view for print operations'',
      Str ''\<newline>'', Str ''\<newline>===== Modern Input Methods =====\<newline>'',
      Str ''1. Traditional std::cin (uncomment to use):'', Str ''\<newline>'',
      Str ''2. Reading lines with std::getline (uncomment to use):'', Str ''\<newline>'',
      Str ''3. Input with validation (uncomment to use):'', Str ''\<newline>'',
      Str ''4. Using string streams for parsing:'', Str ''\<newline>'', Str ''   Parsed int: '',
      Str ''123'', Str ''\<newline>'', Str ''   Parsed double: '',
      Dbl FloatDefault 6 (DParsed ''3.14''), Str ''\<newline>'', Str ''   Parsed string: '',
      Str ''Hello'', Str ''\<newline>'', Str ''5. Modern parsing approaches:'',
      Str ''\<newline>'', Str ''   String to int: '', Str ''42'', Str ''\<newline>'',
      Str ''6. Modern I/O best practices:'', Str ''\<newline>'',
      Str (''   '' @ bullet @ '' Prefer '' @ [CHR 0x27, CHR 0x5C] @ ''n'' @ [CHR 0x27] @ '' over std::endl when flushing isn't needed\<newline>''),
      Str (''   '' @ bullet @ '' Use string_view when not modifying strings\<newline>''),
      Str (''   '' @ bullet @ '' Use std::format in C++20 for readable formatting\<newline>''),
      Str (''   '' @ bullet @ '' Consider using <charconv> for fast numeric conversions\<newline>''),
      Str (''   '' @ bullet @ '' Always validate user input\<newline>'')])
     (\<lambda>f. f\<lparr>showbase := True\<rparr>) (enter DemonstrateModernIO s))"
  by (cases "202002 \<le> cplusplus b")
     (simp_all add: demonstrateModernIO_def new_stream_def default_flags_def extract_int_data
        extract_double_data extract_string_data stoi_number_str stream_simps
      cong: let_weak_cong)

subsection \<open>The whole run\<close>

lemma main_run:
  "main b e =
     \<lparr>calls =
        [DemonstrateBasicSyntax, DemonstrateVariablesAndTypes, DemonstrateControlFlow,
         DemonstrateFunctions, DemonstrateReferencesAndPointers, DemonstrateClasses,
         DemonstrateModernCpp, DemonstrateStl, DemonstrateErrorHandling, DemonstrateModernIO],
      stdout =
       [Str ''=============================='', Str ''\<newline>'',
        Str ''C++ Tutorial for C# and JS Developers'', Str ''\<newline>'',
        Str ''=============================='', Str ''\<newline>'']
       @
       [Str ''\<newline>----- Basic Syntax -----\<newline>'', Str ''Hello, World!'',
        Str ''\<newline>'']
       @
       [Str ''\<newline>----- Variables and Types -----\<newline>'', Str ''Integer: '',
        Str ''42'', Str ''\<newline>'', Str ''Double: '', Dbl FloatDefault 6 (DLit ''3.14159''),
        Str ''\<newline>'', Str ''Char: '', Str ''A'', Str ''\<newline>'', Str ''Boolean: '',
        Str ''true'', Str ''\<newline>'', Str ''String: '', Str ''Hello, C++'',
        Str ''\<newline>'', Str ''5/2 with conversion: '',
        Dbl FloatDefault 6 (DDiv (DOfInt 5) (DOfInt 2)), Str ''\<newline>'',
        Str ''5/2 without conversion: '', Str ''2'', Str ''\<newline>'']
       @
       [Str ''\<newline>----- Control Flow -----\<newline>'', Str ''x is greater than 5'',
        Str ''\<newline>'', Str ''x is 10'', Str ''\<newline>'', Str ''For loop: '', Str ''0'',
        Str '' '', Str ''1'', Str '' '', Str ''2'', Str '' '', Str ''3'', Str '' '', Str ''4'',
        Str '' '', Str ''\<newline>'', Str ''Range-based for loop: '', Str ''1'', Str '' '',
        Str ''2'', Str '' '', Str ''3'', Str '' '', Str ''4'', Str '' '', Str ''5'', Str '' '',
        Str ''\<newline>'', Str ''While loop: '', Str ''0'', Str '' '', Str ''1'', Str '' '',
        Str ''2'', Str '' '', Str ''3'', Str '' '', Str ''4'', Str '' '', Str ''\<newline>'',
        Str ''Do-while loop: '', Str ''0'', Str '' '', Str ''1'', Str '' '', Str ''2'',
        Str '' '', Str ''3'', Str '' '', Str ''4'', Str '' '', Str ''\<newline>'']
       @
       [Str ''\<newline>----- Functions -----\<newline>'', Str ''Function parameter: '',
        Str ''42'', Str ''\<newline>'', Str ''Inside local scope: '', Str ''100'',
        Str ''\<newline>'', Str ''Default params (no args): '', Str ''3'', Str ''\<newline>'',
        Str ''Default params (one arg): '', Str ''12'', Str ''\<newline>'',
        Str ''Default params (two args): '', Str ''30'', Str ''\<newline>'']
       @
       [Str ''Sum: '', Str ''12'', Str ''\<newline>'']
       @
       [Str ''\<newline>----- References and Pointers -----\<newline>'', Str ''Original: '',
        Str ''42'', Str ''\<newline>'', Str ''Reference: '', Str ''42'', Str ''\<newline>'',
        Str ''After modifying reference, original: '', Str ''100'', Str ''\<newline>'',
        Str ''Value: '', Str ''42'', Str ''\<newline>'', Str ''Pointer address: '',
        Ptr (value_addr e), Str ''\<newline>'', Str ''Dereferenced pointer: '', Str ''42'',
        Str ''\<newline>'', Str ''After modifying pointer, value: '', Str ''200'',
        Str ''\<newline>'', Str ''Smart pointer value: '', Str ''42'', Str ''\<newline>'']
       @
       [Str ''\<newline>----- Classes and OOP -----\<newline>'', Str ''Person created: '',
        Str ''Alice'', Str ''\<newline>'', Str ''Hi, I'm '', Str ''Alice'', Str '' and I'm '',
        Str ''30'', Str '' years old.'', Str ''\<newline>'', Str ''Person created: '',
        Str ''Bob'', Str ''\<newline>'', Str ''Hi, I'm '', Str ''Bob'', Str '' and I'm '',
        Str ''25'', Str '' years old.'', Str ''\<newline>'', Str ''Person destroyed: '',
        Str ''Bob'', Str ''\<newline>'', Str ''Person created: '', Str ''Charlie'',
        Str ''\<newline>'', Str ''Hi, I'm '', Str ''Charlie'', Str '' and I'm '', Str ''35'',
        Str '' years old.'', Str ''\<newline>'', Str ''Person created: '', Str ''Dave'',
        Str ''\<newline>'', Str ''Employee created at '', Str ''Acme Inc'', Str ''\<newline>'',
        Str ''Hi, I'm '', Str ''Dave'', Str '', '', Str ''40'',
        Str '' years old, and I work at '', Str ''Acme Inc'', Str ''.'', Str ''\<newline>'',
        Str ''Person destroyed: '', Str ''Dave'', Str ''\<newline>'', Str ''Person destroyed: '',
        Str ''Charlie'', Str ''\<newline>'', Str ''Person destroyed: '', Str ''Alice'',
        Str ''\<newline>'']
       @
       [Str ''\<newline>----- Modern C++ Features -----\<newline>'', Str ''Auto variables: '',
        Str ''42'', Str '', '', Str ''hello'', Str '', '', Dbl FloatDefault 6 (DLit ''3.14159''),
        Str ''\<newline>'', Str ''Lambda result: '', Str ''7'', Str ''\<newline>'',
        Str ''Lambda with capture: '', Str ''50'', Str ''\<newline>'',
        Str ''After move, destination: '', Str ''Original string'', Str ''\<newline>'',
        Str ''After move, source: '', Str (moved_from b ''Original string''), Str ''\<newline>'',
        Str ''Initializer list: '', Str ''1'', Str '' '', Str ''2'', Str '' '', Str ''3'',
        Str '' '', Str ''4'', Str '' '', Str ''5'', Str '' '', Str ''\<newline>'']
       @
       [Str ''\<newline>----- Standard Template Library -----\<newline>'',
        Str ''Vector elements: '', Str ''10'', Str '' '', Str ''20'', Str '' '', Str ''30'',
        Str '' '', Str ''40'', Str '' '', Str ''50'', Str '' '', Str ''\<newline>'',
        Str ''Map elements:'', Str ''\<newline>'', Str ''Alice'', Str '': '', Str ''30'',
        Str ''\<newline>'', Str ''Bob'', Str '': '', Str ''25'', Str ''\<newline>'',
        Str ''Charlie'', Str '': '', Str ''35'', Str ''\<newline>'', Str ''Find 30 in vector: '',
        Str ''Found at position '', Str ''2'', Str ''\<newline>'', Str ''Sorted vector: '',
        Str ''10'', Str '' '', Str ''20'', Str '' '', Str ''30'', Str '' '', Str ''40'',
        Str '' '', Str ''50'', Str '' '', Str ''\<newline>'', Str ''Doubled vector: '',
        Str ''20'', Str '' '', Str ''40'', Str '' '', Str ''60'', Str '' '', Str ''80'',
        Str '' '', Str ''100'', Str '' '', Str ''\<newline>'']
       @
       [Str ''\<newline>----- Error Handling -----\<newline>'', Str ''Attempting division...'',
        Str ''\<newline>'', Str ''Result: '', Str ''5'', Str ''\<newline>'', Str ''vec[1]: '',
        Str ''2'', Str ''\<newline>'']
       @
       [Str ''\<newline>----- Modern I/O Operations -----\<newline>'',
        Str ''===== Modern Output Methods =====\<newline>'',
        Str ''1. Traditional std::cout with concatenation'', Str ''\<newline>'',
        Str ''2. Formatted output with manipulators:'', Str ''\<newline>'', Str ''   Hex: '',
        Str ''0x2a'', Str ''\<newline>'', Str ''   Decimal: '', Str ''42'', Str ''\<newline>'',
        Str ''   Fixed precision: '', Dbl FloatFixed 2 (DLit ''3.14159265359''),
        Str ''\<newline>'', Str ''   Scientific: '',
        Dbl FloatScientific 2 (DLit ''3.14159265359''), Str ''\<newline>'',
        Str ''3. Using string streams:'', Str ''\<newline>'', Str ''   '',
        Str ''String stream allows building complex strings: '', Str ''Value='', Str ''42'',
        Str '', Pi='', Dbl FloatFixed 2 (DLit ''3.14159265359''), Str ''\<newline>'',
        Str ''4. printf-style formatting:'', Str ''\<newline>'', Str ''   Classic printf: num='',
        Str ''42'', Str '', pi='', Dbl FloatFixed 2 (DLit ''3.14159265359''), Str ''\<newline>'']
       @ (if 202002 \<le> cplusplus b
          then
           [Str ''5. C++20 std::format (like C# string interpolation):'', Str ''\<newline>'',
            Str ''   '', Str ''Number: '', Str ''42'', Str '', Pi: '',
            Dbl FloatFixed 2 (DLit ''3.14159265359''), Str ''\<newline>'', Str ''   '',
            Str ''Hex: '', Str ''0x2a'', Str '', Decimal: '', Str ''42'', Str '', Pi: '',
            Dbl FloatFixed 3 (DLit ''3.14159265359''), Str ''\<newline>'']
          else
           [Str ''5. C++20 std::format not available with current compiler settings'',
            Str ''\<newline>''])
       @
       [Str ''6. Modern printing without std::endl (better performance)\<newline>'',
        Str ''7. Using string_view: '', Str ''Efficient string_view for print operations'',
        Str ''\<newline>'', Str ''\<newline>===== Modern Input Methods =====\<newline>'',
        Str ''1. Traditional std::cin (uncomment to use):'', Str ''\<newline>'',
        Str ''2. Reading lines with std::getline (uncomment to use):'', Str ''\<newline>'',
        Str ''3. Input with validation (uncomment to use):'', Str ''\<newline>'',
        Str ''4. Using string streams for parsing:'', Str ''\<newline>'',
        Str ''   Parsed int: '', Str ''123'', Str ''\<newline>'', Str ''   Parsed double: '',
        Dbl FloatDefault 6 (DParsed ''3.14''), Str ''\<newline>'', Str ''   Parsed string: '',
        Str ''Hello'', Str ''\<newline>'', Str ''5. Modern parsing approaches:'',
        Str ''\<newline>'', Str ''   String to int: '', Str ''42'', Str ''\<newline>'',
        Str ''6. Modern I/O best practices:'', Str ''\<newline>'',
        Str (''   '' @ bullet @ '' Prefer '' @ [CHR 0x27, CHR 0x5C] @ ''n'' @ [CHR 0x27] @ '' over std::endl when flushing isn't needed\<newline>''),
        Str (''   '' @ bullet @ '' Use string_view when not modifying strings\<newline>''),
        Str (''   '' @ bullet @ '' Use std::format in C++20 for readable formatting\<newline>''),
        Str (''   '' @ bullet @ '' Consider using <charconv> for fast numeric conversions\<newline>''),
        Str (''   '' @ bullet @ '' Always validate user input\<newline>'')]
       @
       [Str ''\<newline>Tutorial completed successfully!'', Str ''\<newline>''],
      ending = Exited 0\<rparr>"
  by (simp add: main_def call_def statement_def return_from_main_def initial_state_def
        new_stream_def default_flags_def returnSum_def
        demonstrateBasicSyntax_run demonstrateVariablesAndTypes_run demonstrateControlFlow_run
        demonstrateFunctions_run demonstrateReferencesAndPointers_run demonstrateClasses_run
        demonstrateModernCpp_run demonstrateStl_run demonstrateErrorHandling_run
        demonstrateModernIO_run stream_simps
      cong: let_weak_cong)

subsection \<open>A routine after any other routines\<close>

lemma wrote_fields:
  "heap (wrote xs g s) = heap s"
  "entered (wrote xs g s) = entered s"
  "out (console (wrote xs g s)) = out (console s) @ xs"
  "flags (console (wrote xs g s)) = g (flags (console s))"
  by (simp_all add: wrote_def)

lemma enter_fields:
  "heap (enter r s) = heap s"
  "console (enter r s) = console s"
  "entered (enter r s) = entered s @ [r]"
  by (simp_all add: enter_def)

lemma flag_effect_standard: "standard_numeric (flag_effect r f) = standard_numeric f"
  by (cases r) (simp_all add: standard_numeric_def)

lemma initial_state_standard: "standard_numeric (flags (console initial_state))"
  by (simp add: initial_state_def new_stream_def default_flags_def standard_numeric_def)

lemma flag_effect_funs:
  "flag_effect DemonstrateBasicSyntax = (\<lambda>f. f)"
  "flag_effect DemonstrateVariablesAndTypes = (\<lambda>f. f\<lparr>boolalpha := True\<rparr>)"
  "flag_effect DemonstrateControlFlow = (\<lambda>f. f)"
  "flag_effect DemonstrateFunctions = (\<lambda>f. f)"
  "flag_effect DemonstrateReferencesAndPointers = (\<lambda>f. f)"
  "flag_effect DemonstrateClasses = (\<lambda>f. f)"
  "flag_effect DemonstrateModernCpp = (\<lambda>f. f)"
  "flag_effect DemonstrateStl = (\<lambda>f. f)"
  "flag_effect DemonstrateErrorHandling = (\<lambda>f. f)"
  "flag_effect DemonstrateModernIO = (\<lambda>f. f\<lparr>showbase := True\<rparr>)"
  by (rule ext, simp)+

text \<open>From any two states with the numeric flags at their defaults, a routine writes the
  same items, and changes the state by nothing but its entry in the record of the run,
  those items and its flag effect.\<close>

lemma body_uniform:
  assumes s: "standard_numeric (flags (console s))"
    and t: "standard_numeric (flags (console t))"
  shows "\<exists>xs. body b e r s = Normal (wrote xs (flag_effect r) (enter r s))
             \<and> body b e r t = Normal (wrote xs (flag_effect r) (enter r t))"
proof (cases r)
  case DemonstrateBasicSyntax
  show ?thesis
    unfolding DemonstrateBasicSyntax body.simps flag_effect_funs
    by (rule exI, rule conjI, rule demonstrateBasicSyntax_run [OF s], rule demonstrateBasicSyntax_run [OF t])
next
  case DemonstrateVariablesAndTypes
  show ?thesis
    unfolding DemonstrateVariablesAndTypes body.simps flag_effect_funs
    by (rule exI, rule conjI, rule demonstrateVariablesAndTypes_run [OF s], rule demonstrateVariablesAndTypes_run [OF t])
next
  case DemonstrateControlFlow
  show ?thesis
    unfolding DemonstrateControlFlow body.simps flag_effect_funs
    by (rule exI, rule conjI, rule demonstrateControlFlow_run [OF s], rule demonstrateControlFlow_run [OF t])
next
  case DemonstrateFunctions
  show ?thesis
    unfolding DemonstrateFunctions body.simps flag_effect_funs
    by (rule exI, rule conjI, rule demonstrateFunctions_run [OF s], rule demonstrateFunctions_run [OF t])
next
  case DemonstrateReferencesAndPointers
  show ?thesis
    unfolding DemonstrateReferencesAndPointers body.simps flag_effect_funs
    by (rule exI, rule conjI, rule demonstrateReferencesAndPointers_run [OF s], rule demonstrateReferencesAndPointers_run [OF t])
next
  case DemonstrateClasses
  show ?thesis
    unfolding DemonstrateClasses body.simps flag_effect_funs
    by (rule exI, rule conjI, rule demonstrateClasses_run [OF s], rule demonstrateClasses_run [OF t])
next
  case DemonstrateModernCpp
  show ?thesis
    unfolding DemonstrateModernCpp body.simps flag_effect_funs
    by (rule exI, rule conjI, rule demonstrateModernCpp_run [OF s], rule demonstrateModernCpp_run [OF t])
next
  case DemonstrateStl
  show ?thesis
    unfolding DemonstrateStl body.simps flag_effect_funs
    by (rule exI, rule conjI, rule demonstrateStl_run [OF s], rule demonstrateStl_run [OF t])
next
  case DemonstrateErrorHandling
  show ?thesis
    unfolding DemonstrateErrorHandling body.simps flag_effect_funs
    by (rule exI, rule conjI, rule demonstrateErrorHandling_run [OF s], rule demonstrateErrorHandling_run [OF t])
next
  case DemonstrateModernIO
  show ?thesis
    unfolding DemonstrateModernIO body.simps flag_effect_funs
    by (rule exI, rule conjI, rule demonstrateModernIO_run [OF s], rule demonstrateModernIO_run [OF t])
qed

lemma written_by_wrote:
  assumes "body b e r s = Normal (wrote xs g (enter r s))"
  shows "written_by b e r s = Some xs"
  using assms by (simp add: written_by_def wrote_fields enter_fields)

lemma run_all_standard:
  assumes "standard_numeric (flags (console s))"
  shows "\<exists>s'. run_all b e rs s = Normal s'
              \<and> standard_numeric (flags (console s')) \<and> heap s' = heap s
              \<and> entered s' = entered s @ rs"
  using assms
proof (induction rs arbitrary: s)
  case Nil
  then show ?case by simp
next
  case (Cons r rs)
  from body_uniform [OF Cons.prems Cons.prems, of b e r]
  obtain xs where step: "body b e r s = Normal (wrote xs (flag_effect r) (enter r s))"
    by blast
  have "standard_numeric (flags (console (wrote xs (flag_effect r) (enter r s))))"
    using Cons.prems by (simp add: wrote_fields enter_fields flag_effect_standard)
  from Cons.IH [OF this]
  obtain s' where "run_all b e rs (wrote xs (flag_effect r) (enter r s)) = Normal s'"
    and "standard_numeric (flags (console s'))"
    and "heap s' = heap (wrote xs (flag_effect r) (enter r s))"
    and "entered s' = entered (wrote xs (flag_effect r) (enter r s)) @ rs"
    by blast
  then show ?case
    using step by (simp add: wrote_fields enter_fields)
qed

section \<open>The claims\<close>

text \<open>
  C2. On every run, whatever the build and whatever the environment hands the process,
  \<^verbatim>\<open>main\<close> runs to its \<^verbatim>\<open>return 0\<close>: the process exits with status 0. No exception
  leaves \<^verbatim>\<open>main\<close> and no step is undefined behaviour. (Every function of the embedding
  is total; the three counting loops have their termination proofs above.)
\<close>

theorem main_exits_with_status_0: "ending (main b e) = Exited 0"
  by (simp add: main_run)

text \<open>
  C3. On every run the ten demonstration routines are entered in the order
  \<^verbatim>\<open>demonstrateBasicSyntax\<close>, \<^verbatim>\<open>demonstrateVariablesAndTypes\<close>,
  \<^verbatim>\<open>demonstrateControlFlow\<close>, \<^verbatim>\<open>demonstrateFunctions\<close>,
  \<^verbatim>\<open>demonstrateReferencesAndPointers\<close>, \<^verbatim>\<open>demonstrateClasses\<close>,
  \<^verbatim>\<open>demonstrateModernCpp\<close>, \<^verbatim>\<open>demonstrateStl\<close>, \<^verbatim>\<open>demonstrateErrorHandling\<close>,
  \<^verbatim>\<open>demonstrateModernIO\<close>, and each of them exactly once. The record \<open>calls\<close> is
  what the bodies that ran have written on entry, each its own name: it follows what
  \<^verbatim>\<open>main\<close> runs, not how \<^verbatim>\<open>main\<close> is written. For any sequence \<open>rs\<close> of routines
  run one after the other, the record is \<open>rs\<close> itself, so no routine enters another,
  and a different order of calls or a missing call would show in it.
\<close>

theorem main_calls_each_routine_once_in_order:
  "calls (main b e) =
     [DemonstrateBasicSyntax, DemonstrateVariablesAndTypes, DemonstrateControlFlow,
      DemonstrateFunctions, DemonstrateReferencesAndPointers, DemonstrateClasses,
      DemonstrateModernCpp, DemonstrateStl, DemonstrateErrorHandling, DemonstrateModernIO]
   \<and> (\<forall>r. count_list (calls (main b e)) r = 1)
   \<and> entered (final_state (run_all b e rs initial_state)) = rs"
proof (intro conjI)
  show "calls (main b e) =
     [DemonstrateBasicSyntax, DemonstrateVariablesAndTypes, DemonstrateControlFlow,
      DemonstrateFunctions, DemonstrateReferencesAndPointers, DemonstrateClasses,
      DemonstrateModernCpp, DemonstrateStl, DemonstrateErrorHandling, DemonstrateModernIO]"
    by (simp add: main_run)
  show "\<forall>r. count_list (calls (main b e)) r = 1"
  proof
    fix r
    show "count_list (calls (main b e)) r = 1"
      by (cases r) (simp_all add: main_run)
  qed
  from run_all_standard [OF initial_state_standard, of b e rs]
  obtain s where "run_all b e rs initial_state = Normal s"
    and "entered s = entered initial_state @ rs"
    by blast
  then show "entered (final_state (run_all b e rs initial_state)) = rs"
    by (simp add: initial_state_def)
qed

text \<open>
  C5. \<^verbatim>\<open>returnSum(5, 7)\<close> is 12, and \<^verbatim>\<open>main\<close> prints the line \<^verbatim>\<open>Sum: 12\<close>.
\<close>

theorem returnSum_5_7_prints_12:
  "returnSum 5 7 = 12
   \<and> sublist [Str ''Sum: '', Str ''12'', Str ''\<newline>''] (stdout (main b e))"
  by (simp add: returnSum_def main_run sublist_Cons_right)

text \<open>
  C6, as the claim states it: any two runs that differ in the content of standard input
  and in the argument vector write the same output. They need not: the two runs here
  differ in both, and also in where the stack has put the local \<^verbatim>\<open>value\<close> of
  \<^verbatim>\<open>demonstrateReferencesAndPointers\<close>, and their outputs differ.
\<close>

theorem outputs_of_two_runs_differ_counterexample:
  "stdout (main example_build
      \<lparr>stdin = ''1'', argv = [''./tutorial''], environ = [], value_addr = 4096\<rparr>) \<noteq>
   stdout (main example_build
      \<lparr>stdin = ''2'', argv = [''./tutorial'', ''-v''], environ = [], value_addr = 8192\<rparr>)"
  by (simp add: main_run)

text \<open>
  C6, amended. The program reads neither standard input nor its argument vector nor its
  environment variables. Any two runs, whatever their standard input, arguments and
  environment, call the same routines, end with the same status, and write the same
  output but for the pointer value of the line \<^verbatim>\<open>Pointer address: ...\<close>; and two runs
  in which the stack gives \<^verbatim>\<open>value\<close> the same address behave alike in everything.
\<close>

theorem main_ignores_stdin_argv_and_environ:
  "calls (main b e1) = calls (main b e2)
   \<and> ending (main b e1) = ending (main b e2)
   \<and> map mask_pointer (stdout (main b e1)) = map mask_pointer (stdout (main b e2))
   \<and> main b \<lparr>stdin = input1, argv = args1, environ = vars1, value_addr = a\<rparr> =
       main b \<lparr>stdin = input2, argv = args2, environ = vars2, value_addr = a\<rparr>"
  by (simp add: main_run)


text \<open>
  C8. \<^verbatim>\<open>Employee\<close> redefines \<^verbatim>\<open>introduce\<close>, and the call \<^verbatim>\<open>dave.introduce()\<close> in
  \<^verbatim>\<open>demonstrateClasses\<close> runs that version: the routine writes exactly what
  \<^verbatim>\<open>Employee::introduce\<close> writes for Dave, with his name, his age and his company, and
  nowhere what \<^verbatim>\<open>Person::introduce\<close> would write for him. The line reaches the
  program's output.
\<close>

theorem dave_introduces_himself_as_employee:
  "\<exists>xs. written_by b e DemonstrateClasses initial_state = Some xs
     \<and> sublist (out (console (Employee_introduce
                   \<lparr>name = ''Dave'', age = 40, company = ''Acme Inc''\<rparr> initial_state))) xs
     \<and> \<not> sublist (out (console (Person_introduce
                   \<lparr>name = ''Dave'', age = 40, company = ''Acme Inc''\<rparr> initial_state))) xs
     \<and> out (console (Employee_introduce
                   \<lparr>name = ''Dave'', age = 40, company = ''Acme Inc''\<rparr> initial_state)) =
         [Str ''Hi, I'm '', Str ''Dave'', Str '', '', Str ''40'',
          Str '' years old, and I work at '', Str ''Acme Inc'', Str ''.'', Str ''\<newline>'']
     \<and> sublist [Str ''Hi, I'm '', Str ''Dave'', Str '', '', Str ''40'',
          Str '' years old, and I work at '', Str ''Acme Inc'', Str ''.'', Str ''\<newline>'']
         (stdout (main b e))"
proof -
  have std: "standard_numeric (flags (console initial_state))"
    by (simp add: initial_state_def new_stream_def default_flags_def standard_numeric_def)
  have emp: "out (console (Employee_introduce
                   \<lparr>name = ''Dave'', age = 40, company = ''Acme Inc''\<rparr> initial_state)) =
         [Str ''Hi, I'm '', Str ''Dave'', Str '', '', Str ''40'',
          Str '' years old, and I work at '', Str ''Acme Inc'', Str ''.'', Str ''\<newline>'']"
    by (simp add: Employee_introduce_def getName_def getAge_def initial_state_def new_stream_def
          default_flags_def stream_simps)
  have per: "out (console (Person_introduce
                   \<lparr>name = ''Dave'', age = 40, company = ''Acme Inc''\<rparr> initial_state)) =
         [Str ''Hi, I'm '', Str ''Dave'', Str '' and I'm '', Str ''40'',
          Str '' years old.'', Str ''\<newline>'']"
    by (simp add: Person_introduce_def initial_state_def new_stream_def default_flags_def
          stream_simps)
  show ?thesis
    unfolding emp per
    by (simp add: written_by_def demonstrateClasses_run [OF std] wrote_def enter_def main_run
          sublist_Cons_right)
qed

text \<open>
  C10. The output is not the same on every run, and the one place where it varies is the
  line \<^verbatim>\<open>Pointer address: ...\<close> of \<^verbatim>\<open>demonstrateReferencesAndPointers\<close>: it shows the
  address of the local \<^verbatim>\<open>value\<close>, which is the run's own. That is the only pointer the
  program writes; with it blanked, the outputs of any two runs are equal item by item; and
  the outputs of two runs are equal exactly when the two addresses are.
\<close>

theorem only_the_pointer_line_varies:
  "sublist [Str ''\<newline>'', Str ''Pointer address: '', Ptr (value_addr e), Str ''\<newline>'']
     (stdout (main b e))
   \<and> pointers (stdout (main b e)) = [value_addr e]
   \<and> map mask_pointer (stdout (main b e1)) = map mask_pointer (stdout (main b e2))
   \<and> (stdout (main b e1) = stdout (main b e2)) = (value_addr e1 = value_addr e2)"
proof (intro conjI)
  show "sublist [Str ''\<newline>'', Str ''Pointer address: '', Ptr (value_addr e), Str ''\<newline>'']
     (stdout (main b e))"
    by (simp add: main_run sublist_Cons_right)
  show only: "pointers (stdout (main b e)) = [value_addr e]" for e
    by (cases "202002 \<le> cplusplus b") (simp_all add: main_run)
  show "map mask_pointer (stdout (main b e1)) = map mask_pointer (stdout (main b e2))"
    by (simp add: main_run)
  show "(stdout (main b e1) = stdout (main b e2)) = (value_addr e1 = value_addr e2)"
  proof
    assume "stdout (main b e1) = stdout (main b e2)"
    then have "pointers (stdout (main b e1)) = pointers (stdout (main b e2))"
      by simp
    then show "value_addr e1 = value_addr e2"
      by (simp add: only)
  next
    assume "value_addr e1 = value_addr e2"
    then show "stdout (main b e1) = stdout (main b e2)"
      by (simp add: main_run)
  qed
qed

text \<open>
  C1, as the claim states it: when the program runs, the division by zero is triggered and
  the message \<^verbatim>\<open>Runtime error: Division by zero!\<close> is produced. It is not: in a run of
  the program the message is nowhere in the output.
\<close>

theorem division_by_zero_message_absent_counterexample:
  "\<not> sublist [Str ''Runtime error: '', Str ''Division by zero!'']
       (stdout (main example_build example_env))"
  by (simp add: main_run example_build_def example_env_def sublist_Cons_right)

text \<open>
  C1, amended. The source sets \<^verbatim>\<open>denominator\<close> to 2 (and invites the reader to try 0),
  so in the program as it is no error is triggered: the \<^verbatim>\<open>try\<close> block throws nothing,
  the program prints \<^verbatim>\<open>Attempting division...\<close>, \<^verbatim>\<open>Result: 5\<close> and \<^verbatim>\<open>vec[1]: 2\<close>,
  and \<^verbatim>\<open>Runtime error: Division by zero!\<close> is not printed. With the denominator 0 the
  block throws \<^verbatim>\<open>std::runtime_error\<close> right after \<^verbatim>\<open>Attempting division...\<close>, the
  first handler catches it inside the routine and prints
  \<^verbatim>\<open>Runtime error: Division by zero!\<close>, and the routine returns normally.
\<close>

theorem division_example_not_triggered:
  "try_block 10 2 s =
     Normal (cout [I 2, Endl] (cout [S ''vec[1]: '']
       (cout [S ''Result: '', I 5, Endl] (cout [S ''Attempting division...'', Endl] s))))
   \<and> sublist [Str ''Attempting division...'', Str ''\<newline>'', Str ''Result: '', Str ''5'',
        Str ''\<newline>'', Str ''vec[1]: '', Str ''2'', Str ''\<newline>''] (stdout (main b e))
   \<and> \<not> sublist [Str ''Runtime error: '', Str ''Division by zero!''] (stdout (main b e))
   \<and> try_block 10 0 s =
       Throws (StdExn RuntimeError ''Division by zero!'') (cout [S ''Attempting division...'', Endl] s)
   \<and> try_catch (try_block 10 0 s) catch_clauses =
       Normal (cout [S ''Runtime error: '', S ''Division by zero!'', Endl]
                 (cout [S ''Attempting division...'', Endl] s))"
proof (intro conjI)
  show "try_block 10 2 s =
     Normal (cout [I 2, Endl] (cout [S ''vec[1]: '']
       (cout [S ''Result: '', I 5, Endl] (cout [S ''Attempting division...'', Endl] s))))"
    by (simp add: try_block_def at_def int_div_def Let_def)
  show "sublist [Str ''Attempting division...'', Str ''\<newline>'', Str ''Result: '', Str ''5'',
        Str ''\<newline>'', Str ''vec[1]: '', Str ''2'', Str ''\<newline>''] (stdout (main b e))"
    by (simp add: main_run sublist_Cons_right)
  show "\<not> sublist [Str ''Runtime error: '', Str ''Division by zero!''] (stdout (main b e))"
    by (cases "202002 \<le> cplusplus b") (simp_all add: main_run sublist_Cons_right)
  show "try_block 10 0 s =
       Throws (StdExn RuntimeError ''Division by zero!'') (cout [S ''Attempting division...'', Endl] s)"
    by (simp add: try_block_def Let_def)
  show "try_catch (try_block 10 0 s) catch_clauses =
       Normal (cout [S ''Runtime error: '', S ''Division by zero!'', Endl]
                 (cout [S ''Attempting division...'', Endl] s))"
    by (simp add: try_block_def try_catch_def catch_clauses_def derives_def Let_def)
qed

text \<open>
  C4, as the claim states it: each of the four handlers prints the exception's message.
  The catch-all does not. An object thrown from outside the \<^verbatim>\<open>std::exception\<close>
  hierarchy, here one that carries the text \<^verbatim>\<open>boom\<close>, reaches \<^verbatim>\<open>catch (...)\<close>, which has
  no access to it and prints the fixed line \<^verbatim>\<open>Unknown exception occurred\<close>.
\<close>

theorem catch_all_prints_no_message_counterexample:
  "out (console (final_state (dispatch catch_clauses (Other ''boom'') initial_state))) =
     [Str ''Unknown exception occurred'', Str ''\<newline>'']"
  by (simp add: catch_clauses_def initial_state_def new_stream_def stream_simps)

text \<open>
  C4, amended. Every exception raised in the \<^verbatim>\<open>try\<close> block of
  \<^verbatim>\<open>demonstrateErrorHandling\<close> is caught in the routine, by the first clause that matches
  in the order \<^verbatim>\<open>runtime_error\<close>, \<^verbatim>\<open>out_of_range\<close>, \<^verbatim>\<open>std::exception\<close>, catch-all. The
  three typed handlers print their label and the exception's message; the catch-all prints
  \<^verbatim>\<open>Unknown exception occurred\<close> and no message. Whatever the block does, no exception
  leaves the \<^verbatim>\<open>try\<close> statement; the routine returns normally; and the program exits with
  status 0.
\<close>

theorem every_exception_is_caught_in_the_routine:
  "dispatch catch_clauses (StdExn c m) s =
     Normal (cout [S (if derives c RuntimeError then ''Runtime error: ''
                      else if derives c OutOfRange then ''Out of range error: ''
                      else ''Standard exception: ''), S m, Endl] s)
   \<and> dispatch catch_clauses (Other p) s = Normal (cout [S ''Unknown exception occurred'', Endl] s)
   \<and> try_catch r catch_clauses \<noteq> Throws x s'
   \<and> (\<exists>s''. demonstrateErrorHandling s = Normal s'')
   \<and> ending (main b e) = Exited 0"
proof (intro conjI)
  show "dispatch catch_clauses (StdExn c m) s =
     Normal (cout [S (if derives c RuntimeError then ''Runtime error: ''
                      else if derives c OutOfRange then ''Out of range error: ''
                      else ''Standard exception: ''), S m, Endl] s)"
    by (cases c) (simp_all add: catch_clauses_def derives_def)
  show other: "dispatch catch_clauses (Other p) s =
      Normal (cout [S ''Unknown exception occurred'', Endl] s)"
    by (simp add: catch_clauses_def)
  have caught: "\<exists>t. dispatch catch_clauses y u = Normal t" for y u
  proof (cases y)
    case (StdExn d n)
    then show ?thesis by (cases d) (simp_all add: catch_clauses_def derives_def)
  next
    case (Other q)
    then show ?thesis by (simp add: catch_clauses_def)
  qed
  show "try_catch r catch_clauses \<noteq> Throws x s'"
  proof (cases r)
    case (Normal u)
    then show ?thesis by (simp add: try_catch_def)
  next
    case (Throws y u)
    with caught [of y u] show ?thesis by (auto simp: try_catch_def)
  next
    case (Undefined u)
    then show ?thesis by (simp add: try_catch_def)
  qed
  show "\<exists>s''. demonstrateErrorHandling s = Normal s''"
    by (simp add: demonstrateErrorHandling_def try_block_def try_catch_def at_def Let_def)
  show "ending (main b e) = Exited 0"
    by (simp add: main_run)
qed

text \<open>
  C7, as the claim states it: no routine writes state that it shares with another
  routine. \<^verbatim>\<open>std::cout\<close> is such state, and \<^verbatim>\<open>demonstrateVariablesAndTypes\<close> writes
  it: the program starts with \<^verbatim>\<open>boolalpha\<close> off, the routine inserts
  \<^verbatim>\<open>std::boolalpha\<close> and returns without resetting it, and the routine called next
  starts with the flag on.
\<close>

theorem boolalpha_stays_set_counterexample:
  "\<not> boolalpha (flags (console initial_state))
   \<and> boolalpha (flags (console (final_state (demonstrateVariablesAndTypes initial_state))))
   \<and> boolalpha (flags (console (final_state
        (run_all example_build example_env
           [DemonstrateBasicSyntax, DemonstrateVariablesAndTypes] initial_state))))"
proof -
  have "\<not> boolalpha (flags (console initial_state))"
    by (simp add: initial_state_def new_stream_def default_flags_def)
  then show ?thesis
    by (simp add: demonstrateBasicSyntax_run demonstrateVariablesAndTypes_run wrote_fields
          enter_fields initial_state_standard)
qed

text \<open>
  C7, amended. The routines share one thing, the console stream \<^verbatim>\<open>std::cout\<close>: each
  appends to what has been written and changes nothing of it, and a routine returns with
  the stream's flags as it found them but for \<^verbatim>\<open>boolalpha\<close>, which
  \<^verbatim>\<open>demonstrateVariablesAndTypes\<close> leaves set, and \<^verbatim>\<open>showbase\<close>, which
  \<^verbatim>\<open>demonstrateModernIO\<close> leaves set. All other data of a routine is its own: no object
  on the free store outlives the routine that creates it. And what a routine writes does
  not depend on which routines have run before it: after any sequence \<open>rs\<close> of
  demonstration routines, routine \<open>r\<close> returns normally and writes what it writes when
  it is the first to run.
\<close>

theorem routine_output_independent_of_history:
  "\<exists>s s' xs. run_all b e rs initial_state = Normal s
      \<and> body b e r s = Normal s'
      \<and> out (console s') = out (console s) @ xs
      \<and> flags (console s') = flag_effect r (flags (console s))
      \<and> heap s' = heap s
      \<and> written_by b e r s = Some xs
      \<and> written_by b e r initial_state = Some xs"
proof -
  from run_all_standard [OF initial_state_standard, of b e rs]
  obtain s where run: "run_all b e rs initial_state = Normal s"
    and std: "standard_numeric (flags (console s))"
    by blast
  from body_uniform [OF std initial_state_standard, of b e r]
  obtain xs where here: "body b e r s = Normal (wrote xs (flag_effect r) (enter r s))"
    and first: "body b e r initial_state =
                  Normal (wrote xs (flag_effect r) (enter r initial_state))"
    by blast
  show ?thesis
    using run here written_by_wrote [OF here] written_by_wrote [OF first]
    by (auto simp: wrote_fields enter_fields)
qed

end
